theory Spec2Isabelle
  imports Main
begin

chapter \<open>SecureChat: session-key establishment and the message envelope\<close>

text \<open>
  A shallow embedding of the browser client (\<^verbatim>\<open>UI/src/utils/crypto.ts\<close>,
  \<^verbatim>\<open>UI/src/services/api.ts\<close>, \<^verbatim>\<open>UI/src/components/Chat.tsx\<close>, \<^verbatim>\<open>UI/src/App.tsx\<close>) and of
  the Express routes of the chat server (\<^verbatim>\<open>server/src/routes/chat.routes.ts\<close>).

  Conventions.
  \<^item> A JavaScript string is a \<^typ>\<open>string\<close>; a \<^verbatim>\<open>Uint8Array\<close> and the binary string
    \<^verbatim>\<open>String.fromCharCode(...bytes)\<close> built from it are both a list of 8-bit characters.
  \<^item> An exception is a value of \<open>error\<close>; an \<^verbatim>\<open>async\<close> function that may throw returns
    \<open>error + 'a\<close> next to the state it leaves behind, since the effects made before the
    \<^verbatim>\<open>throw\<close> stay.
  \<^item> Mutable state (React refs and state, \<^verbatim>\<open>localStorage\<close>, the MongoDB collections) is passed
    explicitly.
  \<^item> Random values (the AES key of \<^verbatim>\<open>generateAESKey\<close>, the iv of \<^verbatim>\<open>aesEncrypt\<close>, the RSA
    key pair) are arguments of the function that draws them.
  \<^item> The Web Crypto primitives (\<^verbatim>\<open>crypto.subtle\<close>), \<^verbatim>\<open>TextEncoder\<close> and \<^verbatim>\<open>TextDecoder\<close> are
    not code of the repository: the model takes them as a parameter, the record \<open>platform\<close>.
\<close>

section \<open>Strings, base64 and hexadecimal\<close>

type_synonym bytes = string

text \<open>\<^verbatim>\<open>s.split(':')\<close>: never the empty list; \<^verbatim>\<open>''.split(':')\<close> is \<^verbatim>\<open>['']\<close>.\<close>

fun split_on :: "char \<Rightarrow> string \<Rightarrow> string list" where
  "split_on d [] = [[]]"
| "split_on d (c # cs) =
     (if c = d then [] # split_on d cs
      else (case split_on d cs of p # ps \<Rightarrow> (c # p) # ps | [] \<Rightarrow> [[c]]))"

text \<open>\<^verbatim>\<open>s.trim()\<close> on 8-bit characters: TAB, LF, VT, FF, CR, SP and NBSP are white space.\<close>

definition js_whitespace :: "char \<Rightarrow> bool" where
  "js_whitespace c \<longleftrightarrow> of_char c \<in> {9, 10, 11, 12, 13, 32, 160 :: nat}"

definition trim :: "string \<Rightarrow> string" where
  "trim s = rev (dropWhile js_whitespace (rev (dropWhile js_whitespace s)))"


text \<open>\<^verbatim>\<open>bytes.map(b => b.toString(16).padStart(2, '0')).join('')\<close>.\<close>

definition hex_digit :: "nat \<Rightarrow> char" where
  "hex_digit n = ''0123456789abcdef'' ! n"

definition hex :: "bytes \<Rightarrow> string" where
  "hex bs = concat (map (\<lambda>b. [hex_digit (of_char b div 16), hex_digit (of_char b mod 16)]) bs)"

text \<open>
  \<^verbatim>\<open>btoa\<close> and \<^verbatim>\<open>atob\<close>, the browser's base64 functions. \<^verbatim>\<open>atob\<close> is the forgiving decoder
  of the HTML standard: it drops ASCII white space, removes one or two trailing \<^verbatim>\<open>=\<close> when the
  length is a multiple of four, refuses a length that is 1 modulo 4 and any character outside
  the alphabet (it throws \<^verbatim>\<open>InvalidCharacterError\<close>: here \<open>None\<close>), and discards the bits left over.
\<close>

definition b64_alphabet :: string where
  "b64_alphabet = ''ABCDEFGHIJKLMNOPQRSTUVWXYZabcdefghijklmnopqrstuvwxyz0123456789+/''"

definition b64_char :: "nat \<Rightarrow> char" where
  "b64_char n = b64_alphabet ! n"

fun index_of :: "'a \<Rightarrow> 'a list \<Rightarrow> nat option" where
  "index_of c [] = None"
| "index_of c (x # xs) = (if c = x then Some 0 else map_option Suc (index_of c xs))"

definition b64_index :: "char \<Rightarrow> nat option" where
  "b64_index c = index_of c b64_alphabet"

fun b64_encode :: "bytes \<Rightarrow> string" where
  "b64_encode [] = []"
| "b64_encode [a] =
     [b64_char (of_char a div 4), b64_char ((of_char a mod 4) * 16), CHR ''='', CHR ''='']"
| "b64_encode [a, b] =
     [b64_char (of_char a div 4),
      b64_char ((of_char a mod 4) * 16 + of_char b div 16),
      b64_char ((of_char b mod 16) * 4), CHR ''='']"
| "b64_encode (a # b # c # rest) =
     [b64_char (of_char a div 4),
      b64_char ((of_char a mod 4) * 16 + of_char b div 16),
      b64_char ((of_char b mod 16) * 4 + of_char c div 64),
      b64_char (of_char c mod 64)] @ b64_encode rest"

definition btoa :: "bytes \<Rightarrow> string" where
  "btoa bs = b64_encode bs"

definition ascii_whitespace :: "char \<Rightarrow> bool" where
  "ascii_whitespace c \<longleftrightarrow> of_char c \<in> {9, 10, 12, 13, 32 :: nat}"

definition strip_padding :: "string \<Rightarrow> string" where
  "strip_padding d =
     (if d \<noteq> [] \<and> last d = CHR ''='' then
        (let d1 = butlast d in if d1 \<noteq> [] \<and> last d1 = CHR ''='' then butlast d1 else d1)
      else d)"

fun b64_decode_sextets :: "nat list \<Rightarrow> bytes" where
  "b64_decode_sextets (i # j # k # l # rest) =
     [char_of (i * 4 + j div 16), char_of ((j mod 16) * 16 + k div 4),
      char_of ((k mod 4) * 64 + l)] @ b64_decode_sextets rest"
| "b64_decode_sextets [i, j, k] =
     [char_of (i * 4 + j div 16), char_of ((j mod 16) * 16 + k div 4)]"
| "b64_decode_sextets [i, j] = [char_of (i * 4 + j div 16)]"
| "b64_decode_sextets _ = []"

definition atob :: "string \<Rightarrow> bytes option" where
  "atob s =
     (let d = filter (\<lambda>c. \<not> ascii_whitespace c) s;
          d' = (if length d mod 4 = 0 then strip_padding d else d)
      in if length d' mod 4 = 1 then None
         else (case those (map b64_index d') of
                 None \<Rightarrow> None
               | Some sx \<Rightarrow> Some (b64_decode_sextets sx)))"

text \<open>The sextets and the padding of an encoding, to state how \<open>b64_encode\<close> is built.\<close>

fun b64_sextets :: "bytes \<Rightarrow> nat list" where
  "b64_sextets [] = []"
| "b64_sextets [a] = [of_char a div 4, (of_char a mod 4) * 16]"
| "b64_sextets [a, b] =
     [of_char a div 4, (of_char a mod 4) * 16 + of_char b div 16, (of_char b mod 16) * 4]"
| "b64_sextets (a # b # c # rest) =
     [of_char a div 4, (of_char a mod 4) * 16 + of_char b div 16,
      (of_char b mod 16) * 4 + of_char c div 64, of_char c mod 64] @ b64_sextets rest"

fun b64_padding :: "bytes \<Rightarrow> string" where
  "b64_padding [] = []"
| "b64_padding [a] = ''==''"
| "b64_padding [a, b] = ''=''"
| "b64_padding (a # b # c # rest) = b64_padding rest"

section \<open>Errors\<close>

text \<open>
  The exceptions the client code can meet. \<open>InvalidCharacterError\<close> is thrown by
  \<^verbatim>\<open>atob\<close>, \<open>DataError\<close> by \<^verbatim>\<open>crypto.subtle.importKey\<close>, \<open>OperationError\<close> by
  \<^verbatim>\<open>crypto.subtle.encrypt\<close> and \<^verbatim>\<open>decrypt\<close> (for AES-GCM: the authentication failed),
  \<open>AxiosError status\<close> by axios on a response outside 2xx, \<open>NoSessionKeyFound\<close> is
  \<^verbatim>\<open>new Error('No session key found')\<close> and \<open>InvalidEncryptedContentFormat\<close> is
  \<^verbatim>\<open>new Error('Invalid encrypted content format')\<close>.
\<close>

datatype error =
    InvalidCharacterError
  | DataError
  | OperationError
  | AxiosError nat
  | NoSessionKeyFound
  | InvalidEncryptedContentFormat

section \<open>The platform and \<^verbatim>\<open>crypto.ts\<close>\<close>

text \<open>
  What the browser provides. An AES \<^verbatim>\<open>CryptoKey\<close> is its raw key bytes (the keys are
  extractable, and \<^verbatim>\<open>exportKey('raw', key)\<close> returns them); an RSA public or private
  \<^verbatim>\<open>CryptoKey\<close> is a value of \<open>'pub\<close> or \<open>'priv\<close>.
\<close>

record ('pub, 'priv) platform =
  utf8_encode :: "string \<Rightarrow> bytes"
  utf8_decode :: "bytes \<Rightarrow> string"
  sha256_digest :: "bytes \<Rightarrow> bytes"
  aes_gcm_encrypt :: "bytes \<Rightarrow> bytes \<Rightarrow> bytes \<Rightarrow> bytes"
  aes_gcm_decrypt :: "bytes \<Rightarrow> bytes \<Rightarrow> bytes \<Rightarrow> bytes option"
  spki_import :: "bytes \<Rightarrow> 'pub option"
  rsa_oaep_encrypt :: "'pub \<Rightarrow> bytes \<Rightarrow> bytes option"
  rsa_oaep_decrypt :: "'priv \<Rightarrow> bytes \<Rightarrow> bytes option"

text \<open>
  The laws of the platform that the round-trip theorems assume: AES-GCM decryption inverts
  encryption under the same key and a 12-byte iv, and \<^verbatim>\<open>TextDecoder\<close> inverts \<^verbatim>\<open>TextEncoder\<close>
  (true of every well-formed string).
\<close>

definition aes_key_length :: "nat \<Rightarrow> bool" where
  "aes_key_length n \<longleftrightarrow> n = 16 \<or> n = 24 \<or> n = 32"

definition aes_gcm_correct :: "('pub, 'priv) platform \<Rightarrow> bool" where
  "aes_gcm_correct P \<longleftrightarrow>
     (\<forall>k iv p. aes_key_length (length k) \<and> length iv = 12 \<longrightarrow>
        aes_gcm_decrypt P k iv (aes_gcm_encrypt P k iv p) = Some p)"

definition utf8_correct :: "('pub, 'priv) platform \<Rightarrow> bool" where
  "utf8_correct P \<longleftrightarrow> (\<forall>s. utf8_decode P (utf8_encode P s) = s)"

text \<open>\<^verbatim>\<open>sha256\<close> (crypto.ts, lines 2-8).\<close>

definition sha256 :: "('pub, 'priv) platform \<Rightarrow> string \<Rightarrow> string" where
  "sha256 P message = hex (sha256_digest P (utf8_encode P message))"

text \<open>
  \<^verbatim>\<open>generateRSAKeyPair\<close> (lines 11-33): the platform draws the pair, given here as the SPKI
  export of its public key and its private key; the function returns the base64 of the
  former and the private \<^verbatim>\<open>CryptoKey\<close> itself.
\<close>

definition generateRSAKeyPair :: "bytes \<times> 'priv \<Rightarrow> string \<times> 'priv" where
  "generateRSAKeyPair keyPair = (btoa (fst keyPair), snd keyPair)"

text \<open>\<^verbatim>\<open>importRSAPublicKey\<close> (lines 36-53).\<close>

definition importRSAPublicKey :: "('pub, 'priv) platform \<Rightarrow> string \<Rightarrow> error + 'pub" where
  "importRSAPublicKey P publicKeyBase64 =
     (case atob publicKeyBase64 of
        None \<Rightarrow> Inl InvalidCharacterError
      | Some bs \<Rightarrow> (case spki_import P bs of None \<Rightarrow> Inl DataError | Some k \<Rightarrow> Inr k))"

text \<open>\<^verbatim>\<open>rsaEncrypt\<close> (lines 56-67) and \<^verbatim>\<open>rsaDecrypt\<close> (lines 70-86).\<close>

definition rsaEncrypt :: "('pub, 'priv) platform \<Rightarrow> string \<Rightarrow> 'pub \<Rightarrow> error + string" where
  "rsaEncrypt P data publicKey =
     (case rsa_oaep_encrypt P publicKey (utf8_encode P data) of
        None \<Rightarrow> Inl OperationError
      | Some encrypted \<Rightarrow> Inr (btoa encrypted))"

definition rsaDecrypt :: "('pub, 'priv) platform \<Rightarrow> string \<Rightarrow> 'priv \<Rightarrow> error + string" where
  "rsaDecrypt P encryptedData privateKey =
     (case atob encryptedData of
        None \<Rightarrow> Inl InvalidCharacterError
      | Some bs \<Rightarrow>
          (case rsa_oaep_decrypt P privateKey bs of
             None \<Rightarrow> Inl OperationError
           | Some decrypted \<Rightarrow> Inr (utf8_decode P decrypted)))"

text \<open>
  \<^verbatim>\<open>exportAESKey\<close> (lines 101-104) and \<^verbatim>\<open>importAESKey\<close> (lines 107-124);
  \<^verbatim>\<open>importKey('raw', ...)\<close> for AES-GCM throws \<^verbatim>\<open>DataError\<close> unless the key has 128, 192 or
  256 bits. \<^verbatim>\<open>generateAESKey\<close> (lines 89-98) returns 32 fresh bytes, an argument here.
\<close>

definition exportAESKey :: "bytes \<Rightarrow> string" where
  "exportAESKey key = btoa key"

definition importAESKey :: "string \<Rightarrow> error + bytes" where
  "importAESKey keyBase64 =
     (case atob keyBase64 of
        None \<Rightarrow> Inl InvalidCharacterError
      | Some bs \<Rightarrow> if aes_key_length (length bs) then Inr bs else Inl DataError)"

text \<open>
  \<^verbatim>\<open>aesEncrypt\<close> (lines 127-147), with the 12 random bytes of the iv as an argument, and
  \<^verbatim>\<open>aesDecrypt\<close> (lines 150-177). \<^verbatim>\<open>TextDecoder.decode\<close> does not throw.
\<close>

definition aesEncrypt :: "('pub, 'priv) platform \<Rightarrow> bytes \<Rightarrow> string \<Rightarrow> bytes \<Rightarrow> string \<times> string" where
  "aesEncrypt P iv message key =
     (let encoded = utf8_encode P message;
          encrypted = aes_gcm_encrypt P key iv encoded
      in (btoa encrypted, btoa iv))"

definition aesDecrypt :: "('pub, 'priv) platform \<Rightarrow> string \<Rightarrow> string \<Rightarrow> bytes \<Rightarrow> error + string" where
  "aesDecrypt P ciphertext iv key =
     (case atob ciphertext of
        None \<Rightarrow> Inl InvalidCharacterError
      | Some ciphertextBytes \<Rightarrow>
          (case atob iv of
             None \<Rightarrow> Inl InvalidCharacterError
           | Some ivBytes \<Rightarrow>
               (case aes_gcm_decrypt P key ivBytes ciphertextBytes of
                  None \<Rightarrow> Inl OperationError
                | Some decrypted \<Rightarrow> Inr (utf8_decode P decrypted))))"

section \<open>The Directory Service: \<^verbatim>\<open>chat.routes.ts\<close>\<close>

text \<open>
  The MongoDB collections behind the routes. \<open>PublicKey\<close> has a unique index on the user
  name, and \<open>SessionKey\<close> documents are only ever written by an upsert on
  \<open>(sender, receiver)\<close>, so both are maps. \<open>clock\<close> supplies \<^verbatim>\<open>Date.now\<close> and the
  \<^verbatim>\<open>_id\<close> of a new message. \<open>db_ok\<close> is false when the database calls throw: every handler
  then answers 500 from its \<^verbatim>\<open>catch\<close>.
\<close>

record message =
  msg_id :: nat
  sender :: string
  receiver :: string
  encryptedContent :: string
  messageHash :: string
  timestamp :: nat

record server =
  User :: "string list"
  PublicKey :: "string \<rightharpoonup> string"
  SessionKey :: "(string \<times> string) \<rightharpoonup> string"
  Message :: "message list"
  clock :: nat
  db_ok :: bool

datatype response =
    Done
  | Failed
  | PublicKeyBody string string
  | SessionKeyBody string string string
  | MessageSent nat
  | MessagesBody "message list"
  | UsersBody "string list"

text \<open>\<^verbatim>\<open>POST /public-key\<close> (part_000 lines 10-38; chat.routes.ts lines 9-37).\<close>

definition post_public_key :: "string \<Rightarrow> string \<Rightarrow> server \<Rightarrow> (nat \<times> response) \<times> server" where
  "post_public_key username publicKey s =
     (if username = [] \<or> publicKey = [] then ((400, Failed), s)
      else if \<not> db_ok s then ((500, Failed), s)
      else if username \<notin> set (User s) then ((404, Failed), s)
      else ((200, Done), s\<lparr>PublicKey := (PublicKey s)(username \<mapsto> publicKey)\<rparr>))"

text \<open>\<^verbatim>\<open>GET /public-key/:username\<close> (part_000 lines 41-56; chat.routes.ts lines 40-55).\<close>

definition get_public_key :: "string \<Rightarrow> server \<Rightarrow> (nat \<times> response) \<times> server" where
  "get_public_key username s =
     (if \<not> db_ok s then ((500, Failed), s)
      else (case PublicKey s username of
              None \<Rightarrow> ((404, Failed), s)
            | Some publicKey \<Rightarrow> ((200, PublicKeyBody username publicKey), s)))"

text \<open>\<^verbatim>\<open>DELETE /public-key/:username\<close> (part_000 lines 59-70).\<close>

definition delete_public_key :: "string \<Rightarrow> server \<Rightarrow> (nat \<times> response) \<times> server" where
  "delete_public_key username s =
     (if \<not> db_ok s then ((500, Failed), s)
      else ((200, Done), s\<lparr>PublicKey := (PublicKey s)(username := None)\<rparr>))"

text \<open>\<^verbatim>\<open>POST /messages\<close> (part_000 lines 73-108; chat.routes.ts lines 58-93).\<close>

definition post_messages ::
  "string \<Rightarrow> string \<Rightarrow> string \<Rightarrow> string \<Rightarrow> server \<Rightarrow> (nat \<times> response) \<times> server" where
  "post_messages sndr rcvr content hash s =
     (if sndr = [] \<or> rcvr = [] \<or> content = [] \<or> hash = [] then ((400, Failed), s)
      else if \<not> db_ok s then ((500, Failed), s)
      else if sndr \<notin> set (User s) \<or> rcvr \<notin> set (User s) then ((404, Failed), s)
      else
        (let m = \<lparr>msg_id = clock s, sender = sndr, receiver = rcvr, encryptedContent = content,
                  messageHash = hash, timestamp = clock s\<rparr>
         in ((201, MessageSent (msg_id m)), s\<lparr>Message := Message s @ [m], clock := Suc (clock s)\<rparr>)))"

text \<open>\<^verbatim>\<open>GET /messages/:user1/:user2\<close> (part_000 lines 111-127; chat.routes.ts lines 96-112).\<close>

definition get_messages :: "string \<Rightarrow> string \<Rightarrow> server \<Rightarrow> (nat \<times> response) \<times> server" where
  "get_messages user1 user2 s =
     (if \<not> db_ok s then ((500, Failed), s)
      else
        (let found = filter (\<lambda>m. (sender m = user1 \<and> receiver m = user2)
                                \<or> (sender m = user2 \<and> receiver m = user1)) (Message s)
         in ((200, MessagesBody (sort_key timestamp found)), s)))"

text \<open>
  \<^verbatim>\<open>GET /users\<close> of part_000 (lines 130-151) lists the users that have a public key; the
  same route in chat.routes.ts (lines 115-127) lists every user. Both leave out
  \<^verbatim>\<open>exclude\<close> when it is a non-empty string.
\<close>

definition get_users :: "string option \<Rightarrow> server \<Rightarrow> (nat \<times> response) \<times> server" where
  "get_users exclude s =
     (if \<not> db_ok s then ((500, Failed), s)
      else
        (let onlineUsernames = dom (PublicKey s);
             filteredUsernames =
               (case exclude of
                  Some e \<Rightarrow> if e \<noteq> [] then {u \<in> onlineUsernames. u \<noteq> e} else onlineUsernames
                | None \<Rightarrow> onlineUsernames)
         in ((200, UsersBody (filter (\<lambda>u. u \<in> filteredUsernames) (User s))), s)))"

definition get_users_all :: "string option \<Rightarrow> server \<Rightarrow> (nat \<times> response) \<times> server" where
  "get_users_all exclude s =
     (if \<not> db_ok s then ((500, Failed), s)
      else
        (case exclude of
           Some e \<Rightarrow> if e \<noteq> [] then ((200, UsersBody (filter (\<lambda>u. u \<noteq> e) (User s))), s)
                     else ((200, UsersBody (User s)), s)
         | None \<Rightarrow> ((200, UsersBody (User s)), s)))"

text \<open>\<^verbatim>\<open>POST /session-key\<close> (part_000 lines 154-184).\<close>

definition post_session_key ::
  "string \<Rightarrow> string \<Rightarrow> string \<Rightarrow> server \<Rightarrow> (nat \<times> response) \<times> server" where
  "post_session_key sndr rcvr encryptedKey s =
     (if sndr = [] \<or> rcvr = [] \<or> encryptedKey = [] then ((400, Failed), s)
      else if \<not> db_ok s then ((500, Failed), s)
      else if sndr \<notin> set (User s) \<or> rcvr \<notin> set (User s) then ((404, Failed), s)
      else ((200, Done), s\<lparr>SessionKey := (SessionKey s)((sndr, rcvr) \<mapsto> encryptedKey)\<rparr>))"

text \<open>\<^verbatim>\<open>GET /session-key/:sender/:receiver\<close> (part_000 lines 187-212).\<close>

definition get_session_key :: "string \<Rightarrow> string \<Rightarrow> server \<Rightarrow> (nat \<times> response) \<times> server" where
  "get_session_key sndr rcvr s =
     (if \<not> db_ok s then ((500, Failed), s)
      else
        (case SessionKey s (sndr, rcvr) of
           Some k \<Rightarrow> ((200, SessionKeyBody sndr rcvr k), s)
         | None \<Rightarrow>
             (case SessionKey s (rcvr, sndr) of
                Some k \<Rightarrow> ((200, SessionKeyBody rcvr sndr k), s)
              | None \<Rightarrow> ((404, Failed), s))))"

section \<open>The client's view of the Directory Service: \<^verbatim>\<open>api.ts\<close>\<close>

text \<open>
  One constructor per function of \<^verbatim>\<open>chatAPI\<close> (crypto.ts lines 247-290, the text of
  \<^verbatim>\<open>services/api.ts\<close>). \<open>net\<close> is the server together with the requests it has been sent,
  oldest first: the list records what left the browser. axios throws on a status outside
  2xx. User names are taken to be safe in a URL path.
\<close>

datatype request =
    StorePublicKey string string
  | DeletePublicKey string
  | GetPublicKey string
  | StoreSessionKey string string string
  | GetSessionKey string string
  | SendMessage string string string string
  | GetMessages string string
  | GetUsers "string option"

record directory =
  srv :: server
  requests :: "request list"

fun route :: "request \<Rightarrow> server \<Rightarrow> (nat \<times> response) \<times> server" where
  "route (StorePublicKey username publicKey) s = post_public_key username publicKey s"
| "route (DeletePublicKey username) s = delete_public_key username s"
| "route (GetPublicKey username) s = get_public_key username s"
| "route (StoreSessionKey sndr rcvr encryptedKey) s = post_session_key sndr rcvr encryptedKey s"
| "route (GetSessionKey sndr rcvr) s = get_session_key sndr rcvr s"
| "route (SendMessage sndr rcvr content hash) s = post_messages sndr rcvr content hash s"
| "route (GetMessages user1 user2) s = get_messages user1 user2 s"
| "route (GetUsers excludeUser) s = get_users excludeUser s"

definition chatAPI :: "request \<Rightarrow> directory \<Rightarrow> (error + response) \<times> directory" where
  "chatAPI rq d =
     (let reply = route rq (srv d);
          status = fst (fst reply)
      in (if 200 \<le> status \<and> status < 300 then Inr (snd (fst reply)) else Inl (AxiosError status),
          \<lparr>srv = snd reply, requests = requests d @ [rq]\<rparr>))"

section \<open>The chat component: \<^verbatim>\<open>Chat.tsx\<close>\<close>

text \<open>
  The state of one mounted \<^verbatim>\<open>Chat\<close> component: its three refs (lines 53-55) and its React
  state (lines 45-50). \<open>tab\<close> is what its functions read and write: the component, the
  browser's \<^verbatim>\<open>localStorage\<close> and \<^verbatim>\<open>sessionStorage\<close>, and the Directory Service.
  \<^verbatim>\<open>localStorage\<close> belongs to the browser, so two users logged in from the same browser
  share it. The prop \<^verbatim>\<open>currentUser\<close> is an argument of every function.
\<close>

record DecryptedMessage =
  dm_id :: nat
  dm_sender :: string
  dm_receiver :: string
  content :: string
  dm_timestamp :: nat
  verified :: bool

record 'priv chat =
  privateKeyRef :: "'priv option"
  publicKeyRef :: string
  aesKeysRef :: "string \<rightharpoonup> bytes"
  users :: "string list"
  selectedUser :: "string option"
  messages :: "DecryptedMessage list"
  newMessage :: string
  loading :: bool
  error_text :: string

record 'priv tab =
  chat :: "'priv chat"
  localStorage :: "string \<rightharpoonup> string"
  sessionStorage :: "string \<rightharpoonup> string"
  net :: directory

text \<open>The component as mounted: empty refs and the initial \<^verbatim>\<open>useState\<close> values.\<close>

definition initial_chat :: "'priv chat" where
  "initial_chat =
     \<lparr>privateKeyRef = None, publicKeyRef = [], aesKeysRef = Map.empty, users = [],
      selectedUser = None, messages = [], newMessage = [], loading = False, error_text = []\<rparr>"

text \<open>
  \<^verbatim>\<open>if (value)\<close> on the result of \<^verbatim>\<open>localStorage.getItem\<close> or on a string state:
  \<^verbatim>\<open>null\<close> and the empty string are falsy.
\<close>

definition truthy :: "string option \<Rightarrow> string option" where
  "truthy v = (case v of None \<Rightarrow> None | Some s \<Rightarrow> if s = [] then None else Some s)"

definition sessionKeyName :: "string \<Rightarrow> string \<Rightarrow> string" where
  "sessionKeyName a b = ''sessionKey_'' @ a @ ''_'' @ b"

definition cacheKey :: "string \<Rightarrow> bytes \<Rightarrow> 'priv tab \<Rightarrow> 'priv tab" where
  "cacheKey username sessionKey w =
     w\<lparr>chat := (chat w)\<lparr>aesKeysRef := (aesKeysRef (chat w))(username \<mapsto> sessionKey)\<rparr>\<rparr>"

definition setItem :: "string \<Rightarrow> string \<Rightarrow> 'priv tab \<Rightarrow> 'priv tab" where
  "setItem k v w = w\<lparr>localStorage := (localStorage w)(k \<mapsto> v)\<rparr>"

text \<open>
  \<^verbatim>\<open>exchangeSessionKey\<close> (Chat.tsx lines 163-177). Everything is inside one \<^verbatim>\<open>try\<close> whose
  \<^verbatim>\<open>catch\<close> only logs: the function never throws. The result of \<^verbatim>\<open>rsaEncrypt\<close> is not
  used; the exported key goes to \<^verbatim>\<open>localStorage\<close> under the reverse name.
\<close>

definition exchangeSessionKey ::
  "('pub, 'priv) platform \<Rightarrow> string \<Rightarrow> string \<Rightarrow> bytes \<Rightarrow> 'priv tab \<Rightarrow> 'priv tab" where
  "exchangeSessionKey P currentUser username sessionKey w =
     (let reply = chatAPI (GetPublicKey username) (net w);
          w1 = w\<lparr>net := snd reply\<rparr>
      in case fst reply of
           Inr (PublicKeyBody u publicKey) \<Rightarrow>
             (case importRSAPublicKey P publicKey of
                Inr theirPublicKey \<Rightarrow>
                  (let exportedSessionKey = exportAESKey sessionKey
                   in case rsaEncrypt P exportedSessionKey theirPublicKey of
                        Inr encrypted \<Rightarrow>
                          setItem (sessionKeyName username currentUser) exportedSessionKey w1
                      | Inl err \<Rightarrow> w1)
              | Inl err \<Rightarrow> w1)
         | _ \<Rightarrow> w1)"

text \<open>
  \<^verbatim>\<open>getOrCreateSessionKey\<close> (Chat.tsx lines 135-160); \<open>fresh\<close> is the key that
  \<^verbatim>\<open>generateAESKey\<close> returns if it is called.
\<close>

definition getOrCreateSessionKey ::
  "('pub, 'priv) platform \<Rightarrow> string \<Rightarrow> string \<Rightarrow> bytes \<Rightarrow> 'priv tab \<Rightarrow> (error + bytes) \<times> 'priv tab" where
  "getOrCreateSessionKey P currentUser username fresh w =
     (case aesKeysRef (chat w) username of
        Some sessionKey \<Rightarrow> (Inr sessionKey, w)
      | None \<Rightarrow>
          (case truthy (localStorage w (sessionKeyName currentUser username)) of
             Some storedKey \<Rightarrow>
               (case importAESKey storedKey of
                  Inl err \<Rightarrow> (Inl err, w)
                | Inr sessionKey \<Rightarrow> (Inr sessionKey, cacheKey username sessionKey w))
           | None \<Rightarrow>
               (let sessionKey = fresh;
                    exportedKey = exportAESKey sessionKey;
                    w1 = cacheKey username sessionKey w;
                    w2 = setItem (sessionKeyName currentUser username) exportedKey w1
                in (Inr sessionKey, exchangeSessionKey P currentUser username sessionKey w2))))"

text \<open>
  \<^verbatim>\<open>decryptMessage\<close> (Chat.tsx lines 180-219) in its three steps. \<open>findSessionKey\<close> is
  lines 185-201: the cache, then the entry under the direct name, then the entry under the
  reverse name.
\<close>

definition otherUser_of :: "string \<Rightarrow> message \<Rightarrow> string" where
  "otherUser_of currentUser msg =
     (let isReceived = (receiver msg = currentUser)
      in if isReceived then sender msg else receiver msg)"

definition findSessionKey :: "string \<Rightarrow> string \<Rightarrow> 'priv tab \<Rightarrow> (error + bytes) \<times> 'priv tab" where
  "findSessionKey currentUser otherUser w =
     (case aesKeysRef (chat w) otherUser of
        Some sessionKey \<Rightarrow> (Inr sessionKey, w)
      | None \<Rightarrow>
          (case truthy (localStorage w (sessionKeyName currentUser otherUser)) of
             None \<Rightarrow>
               (case truthy (localStorage w (sessionKeyName otherUser currentUser)) of
                  Some reverseKey \<Rightarrow>
                    (case importAESKey reverseKey of
                       Inl err \<Rightarrow> (Inl err, w)
                     | Inr sessionKey \<Rightarrow> (Inr sessionKey, cacheKey otherUser sessionKey w))
                | None \<Rightarrow> (Inl NoSessionKeyFound, w))
           | Some storedKey \<Rightarrow>
               (case importAESKey storedKey of
                  Inl err \<Rightarrow> (Inl err, w)
                | Inr sessionKey \<Rightarrow> (Inr sessionKey, cacheKey otherUser sessionKey w))))"

text \<open>
  \<^verbatim>\<open>const [ciphertext, iv] = parts\<close>: an element that is missing is \<^verbatim>\<open>undefined\<close>, which
  \<^verbatim>\<open>atob\<close> reads as the string \<^verbatim>\<open>undefined\<close> (and refuses, its length being 9); elements
  after the second are dropped.
\<close>

fun first_two :: "string list \<Rightarrow> string \<times> string" where
  "first_two [] = (''undefined'', ''undefined'')"
| "first_two [a] = (a, ''undefined'')"
| "first_two (a # b # rest) = (a, b)"

text \<open>
  \<open>open_envelope\<close> is lines 204-209 of \<^verbatim>\<open>decryptMessage\<close>: the stored envelope, the
  stored digest and the session key give the plaintext and the verified flag.
\<close>

definition open_envelope ::
  "('pub, 'priv) platform \<Rightarrow> string \<Rightarrow> string \<Rightarrow> bytes \<Rightarrow> error + string \<times> bool" where
  "open_envelope P envelope digest sessionKey =
     (let parts = first_two (split_on CHR '':'' envelope)
      in case aesDecrypt P (fst parts) (snd parts) sessionKey of
           Inl err \<Rightarrow> Inl err
         | Inr decryptedContent \<Rightarrow>
             (let computedHash = sha256 P decryptedContent;
                  verified = (computedHash = digest)
              in Inr (decryptedContent, verified)))"

definition decryptMessage ::
  "('pub, 'priv) platform \<Rightarrow> string \<Rightarrow> message \<Rightarrow> 'priv tab
     \<Rightarrow> (error + DecryptedMessage) \<times> 'priv tab" where
  "decryptMessage P currentUser msg w =
     (let found = findSessionKey currentUser (otherUser_of currentUser msg) w
      in case fst found of
           Inl err \<Rightarrow> (Inl err, snd found)
         | Inr sessionKey \<Rightarrow>
             (case open_envelope P (encryptedContent msg) (messageHash msg) sessionKey of
                Inl err \<Rightarrow> (Inl err, snd found)
              | Inr opened \<Rightarrow>
                  (Inr \<lparr>dm_id = msg_id msg, dm_sender = sender msg, dm_receiver = receiver msg,
                        content = fst opened, dm_timestamp = timestamp msg,
                        verified = snd opened\<rparr>,
                   snd found)))"

text \<open>
  \<^verbatim>\<open>fetchMessages\<close> (Chat.tsx lines 105-132). \<open>decryption_failed\<close> is the value of the
  inner \<^verbatim>\<open>catch\<close> (lines 117-124); \<open>decrypt_each\<close> is the \<^verbatim>\<open>map\<close> under
  \<^verbatim>\<open>Promise.all\<close>, message by message. (The callbacks of the \<^verbatim>\<open>map\<close> interleave at their
  \<^verbatim>\<open>await\<close>s; each of them writes to the cache only the key it has read from
  \<^verbatim>\<open>localStorage\<close> for its peer, so the order does not show in the result.)
\<close>

definition decryption_failed :: "message \<Rightarrow> DecryptedMessage" where
  "decryption_failed msg =
     \<lparr>dm_id = msg_id msg, dm_sender = sender msg, dm_receiver = receiver msg,
      content = ''[Decryption failed]'', dm_timestamp = timestamp msg, verified = False\<rparr>"

fun decrypt_each ::
  "('pub, 'priv) platform \<Rightarrow> string \<Rightarrow> message list \<Rightarrow> 'priv tab
     \<Rightarrow> DecryptedMessage list \<times> 'priv tab" where
  "decrypt_each P currentUser [] w = ([], w)"
| "decrypt_each P currentUser (msg # msgs) w =
     (let r = decryptMessage P currentUser msg w;
          decrypted = (case fst r of Inr d \<Rightarrow> d | Inl err \<Rightarrow> decryption_failed msg);
          rest = decrypt_each P currentUser msgs (snd r)
      in (decrypted # fst rest, snd rest))"

definition fetchMessages :: "('pub, 'priv) platform \<Rightarrow> string \<Rightarrow> 'priv tab \<Rightarrow> 'priv tab" where
  "fetchMessages P currentUser w =
     (case truthy (selectedUser (chat w)) of
        None \<Rightarrow> w
      | Some su \<Rightarrow>
          (let reply = chatAPI (GetMessages currentUser su) (net w);
               w1 = w\<lparr>net := snd reply\<rparr>
           in case fst reply of
                Inr (MessagesBody msgs) \<Rightarrow>
                  (let r = decrypt_each P currentUser msgs w1
                   in (snd r)\<lparr>chat := (chat (snd r))\<lparr>messages := fst r\<rparr>\<rparr>)
              | _ \<Rightarrow> w1))"

text \<open>
  \<open>seal\<close> is lines 234-238 of \<^verbatim>\<open>handleSendMessage\<close>: the digest of the plaintext and the
  envelope \<^verbatim>\<open>`${ciphertext}:${iv}`\<close>. \<^verbatim>\<open>handleSendMessage\<close> itself is lines 222-251.
\<close>

definition seal :: "('pub, 'priv) platform \<Rightarrow> bytes \<Rightarrow> string \<Rightarrow> bytes \<Rightarrow> string \<times> string" where
  "seal P iv plaintext sessionKey =
     (let messageHash = sha256 P plaintext;
          encrypted = aesEncrypt P iv plaintext sessionKey;
          encryptedContent = fst encrypted @ '':'' @ snd encrypted
      in (encryptedContent, messageHash))"

definition handleSendMessage ::
  "('pub, 'priv) platform \<Rightarrow> string \<Rightarrow> bytes \<Rightarrow> bytes \<Rightarrow> 'priv tab \<Rightarrow> 'priv tab" where
  "handleSendMessage P currentUser fresh iv w =
     (case truthy (selectedUser (chat w)) of
        None \<Rightarrow> w
      | Some su \<Rightarrow>
          if trim (newMessage (chat w)) = [] then w
          else
            (let w0 = w\<lparr>chat := (chat w)\<lparr>loading := True, error_text := []\<rparr>\<rparr>;
                 k = getOrCreateSessionKey P currentUser su fresh w0;
                 failed = (\<lambda>v. v\<lparr>chat := (chat v)\<lparr>error_text := ''Failed to send message'',
                                                      loading := False\<rparr>\<rparr>)
             in case fst k of
                  Inl err \<Rightarrow> failed (snd k)
                | Inr sessionKey \<Rightarrow>
                    (let sealed = seal P iv (newMessage (chat w)) sessionKey;
                         reply = chatAPI (SendMessage currentUser su (fst sealed) (snd sealed))
                                   (net (snd k));
                         w1 = (snd k)\<lparr>net := snd reply\<rparr>
                     in case fst reply of
                          Inl err \<Rightarrow> failed w1
                        | Inr body \<Rightarrow>
                            (let w2 = w1\<lparr>chat := (chat w1)\<lparr>newMessage := []\<rparr>\<rparr>;
                                 w3 = fetchMessages P currentUser w2
                             in w3\<lparr>chat := (chat w3)\<lparr>loading := False\<rparr>\<rparr>))))"

text \<open>
  \<^verbatim>\<open>fetchUsers\<close> (lines 80-87) and \<^verbatim>\<open>initializeKeys\<close> (lines 61-73); \<open>keyPair\<close> is the
  pair the platform generates.
\<close>

definition fetchUsers :: "string \<Rightarrow> 'priv tab \<Rightarrow> 'priv tab" where
  "fetchUsers currentUser w =
     (let reply = chatAPI (GetUsers (truthy (Some currentUser))) (net w);
          w1 = w\<lparr>net := snd reply\<rparr>
      in case fst reply of
           Inr (UsersBody us) \<Rightarrow> w1\<lparr>chat := (chat w1)\<lparr>users := us\<rparr>\<rparr>
         | _ \<Rightarrow> w1)"

definition initializeKeys :: "string \<Rightarrow> bytes \<times> 'priv \<Rightarrow> 'priv tab \<Rightarrow> 'priv tab" where
  "initializeKeys currentUser keyPair w =
     (let generated = generateRSAKeyPair keyPair;
          w1 = w\<lparr>chat := (chat w)\<lparr>privateKeyRef := Some (snd generated),
                                   publicKeyRef := fst generated\<rparr>\<rparr>;
          reply = chatAPI (StorePublicKey currentUser (fst generated)) (net w1);
          w2 = w1\<lparr>net := snd reply\<rparr>
      in case fst reply of
           Inr body \<Rightarrow> w2
         | Inl err \<Rightarrow> w2\<lparr>chat := (chat w2)\<lparr>error_text := ''Failed to initialize encryption keys''\<rparr>\<rparr>)"

text \<open>
  What can happen in a mounted chat component: the effects and handlers above, and the two
  state setters the view calls (\<^verbatim>\<open>setSelectedUser\<close>, line 312, and \<^verbatim>\<open>setNewMessage\<close>,
  line 417). Each action carries the random values it draws.
\<close>

datatype 'priv action =
    DoInitializeKeys "bytes \<times> 'priv"
  | DoFetchUsers
  | DoSelectUser string
  | DoTypeMessage string
  | DoFetchMessages
  | DoGetOrCreateSessionKey string bytes
  | DoExchangeSessionKey string bytes
  | DoDecryptMessage message
  | DoHandleSendMessage bytes bytes

fun perform ::
  "('pub, 'priv) platform \<Rightarrow> string \<Rightarrow> 'priv action \<Rightarrow> 'priv tab \<Rightarrow> 'priv tab" where
  "perform P currentUser (DoInitializeKeys keyPair) w = initializeKeys currentUser keyPair w"
| "perform P currentUser DoFetchUsers w = fetchUsers currentUser w"
| "perform P currentUser (DoSelectUser u) w = w\<lparr>chat := (chat w)\<lparr>selectedUser := Some u\<rparr>\<rparr>"
| "perform P currentUser (DoTypeMessage t) w = w\<lparr>chat := (chat w)\<lparr>newMessage := t\<rparr>\<rparr>"
| "perform P currentUser DoFetchMessages w = fetchMessages P currentUser w"
| "perform P currentUser (DoGetOrCreateSessionKey u fresh) w =
     snd (getOrCreateSessionKey P currentUser u fresh w)"
| "perform P currentUser (DoExchangeSessionKey u k) w = exchangeSessionKey P currentUser u k w"
| "perform P currentUser (DoDecryptMessage msg) w = snd (decryptMessage P currentUser msg w)"
| "perform P currentUser (DoHandleSendMessage fresh iv) w =
     handleSendMessage P currentUser fresh iv w"

fun perform_all ::
  "('pub, 'priv) platform \<Rightarrow> string \<Rightarrow> 'priv action list \<Rightarrow> 'priv tab \<Rightarrow> 'priv tab" where
  "perform_all P currentUser [] w = w"
| "perform_all P currentUser (a # as) w = perform_all P currentUser as (perform P currentUser a w)"

text \<open>
  The tab with another content of the private-key ref, the tab with the private key taken
  out, and an action without the private key it carries.
\<close>

definition with_private_key :: "'priv option \<Rightarrow> 'priv tab \<Rightarrow> 'priv tab" where
  "with_private_key pk w = w\<lparr>chat := (chat w)\<lparr>privateKeyRef := pk\<rparr>\<rparr>"

definition without_private_key :: "'priv tab \<Rightarrow> 'priv tab" where
  "without_private_key w = with_private_key None w"

definition public_part :: "'priv action \<Rightarrow> unit action" where
  "public_part a = map_action (\<lambda>k. ()) a"

section \<open>The revision of \<^verbatim>\<open>Chat.tsx\<close> that exchanges keys through the server\<close>

text \<open>
  The sources hold a second text of \<^verbatim>\<open>Chat.tsx\<close> (printed after \<^verbatim>\<open>Login.tsx\<close>, lines 107-608
  of that file), the one the routes \<^verbatim>\<open>/session-key\<close> of part_000 and \<^verbatim>\<open>handleLogout\<close> of
  part_003 belong to. Its functions carry the suffix \<open>_srv\<close> here. It names the local entry
  after the sorted pair, \<^verbatim>\<open>[currentUser, username].sort().join('_')\<close>; \<^verbatim>\<open>sort\<close> compares
  strings code unit by code unit.
\<close>

fun js_less :: "string \<Rightarrow> string \<Rightarrow> bool" where
  "js_less [] [] = False"
| "js_less [] (y # ys) = True"
| "js_less (x # xs) [] = False"
| "js_less (x # xs) (y # ys) = ((of_char x :: nat) < of_char y \<or> (x = y \<and> js_less xs ys))"

definition conversationKeyName :: "string \<Rightarrow> string \<Rightarrow> string" where
  "conversationKeyName currentUser username =
     ''conversationKey_'' @
       (if js_less username currentUser then username @ ''_'' @ currentUser
        else currentUser @ ''_'' @ username)"

text \<open>\<^verbatim>\<open>exchangeSessionKey\<close> (Login.tsx lines 329-346).\<close>

definition exchangeSessionKey_srv ::
  "('pub, 'priv) platform \<Rightarrow> string \<Rightarrow> string \<Rightarrow> bytes \<Rightarrow> 'priv tab \<Rightarrow> 'priv tab" where
  "exchangeSessionKey_srv P currentUser username sessionKey w =
     (let reply = chatAPI (GetPublicKey username) (net w);
          w1 = w\<lparr>net := snd reply\<rparr>
      in case fst reply of
           Inr (PublicKeyBody u publicKey) \<Rightarrow>
             (case importRSAPublicKey P publicKey of
                Inr theirPublicKey \<Rightarrow>
                  (let exportedSessionKey = exportAESKey sessionKey
                   in case rsaEncrypt P exportedSessionKey theirPublicKey of
                        Inr encryptedSessionKey \<Rightarrow>
                          w1\<lparr>net := snd (chatAPI
                                 (StoreSessionKey currentUser username encryptedSessionKey)
                                 (net w1))\<rparr>
                      | Inl err \<Rightarrow> w1)
              | Inl err \<Rightarrow> w1)
         | _ \<Rightarrow> w1)"

text \<open>
  \<^verbatim>\<open>getOrCreateSessionKey\<close> (Login.tsx lines 265-326). \<open>fetchSessionKey_srv\<close> is the
  \<^verbatim>\<open>try\<close> of lines 284-313: it yields a key only when the server holds a record whose
  receiver is the caller and that record decrypts and imports; any failure, a record the
  caller sent, and a missing private key all end in the \<^verbatim>\<open>catch\<close>, which only logs.
\<close>

definition fetchSessionKey_srv ::
  "('pub, 'priv) platform \<Rightarrow> string \<Rightarrow> string \<Rightarrow> 'priv tab \<Rightarrow> bytes option \<times> 'priv tab" where
  "fetchSessionKey_srv P currentUser username w =
     (let reply = chatAPI (GetSessionKey currentUser username) (net w);
          w1 = w\<lparr>net := snd reply\<rparr>
      in case fst reply of
           Inr (SessionKeyBody sndr rcvr encryptedKey) \<Rightarrow>
             if rcvr = currentUser then
               (case privateKeyRef (chat w1) of
                  None \<Rightarrow> (None, w1)
                | Some privateKey \<Rightarrow>
                    (case rsaDecrypt P encryptedKey privateKey of
                       Inl err \<Rightarrow> (None, w1)
                     | Inr decryptedKey \<Rightarrow>
                         (case importAESKey decryptedKey of
                            Inl err \<Rightarrow> (None, w1)
                          | Inr sessionKey \<Rightarrow>
                              (Some sessionKey,
                               setItem (conversationKeyName currentUser username)
                                 (exportAESKey sessionKey) (cacheKey username sessionKey w1)))))
             else (None, w1)
         | _ \<Rightarrow> (None, w1))"

definition getOrCreateSessionKey_srv ::
  "('pub, 'priv) platform \<Rightarrow> string \<Rightarrow> string \<Rightarrow> bytes \<Rightarrow> 'priv tab \<Rightarrow> (error + bytes) \<times> 'priv tab" where
  "getOrCreateSessionKey_srv P currentUser username fresh w =
     (case aesKeysRef (chat w) username of
        Some sessionKey \<Rightarrow> (Inr sessionKey, w)
      | None \<Rightarrow>
          (case truthy (localStorage w (conversationKeyName currentUser username)) of
             Some storedKey \<Rightarrow>
               (case importAESKey storedKey of
                  Inl err \<Rightarrow> (Inl err, w)
                | Inr sessionKey \<Rightarrow> (Inr sessionKey, cacheKey username sessionKey w))
           | None \<Rightarrow>
               (let fetched = fetchSessionKey_srv P currentUser username w
                in case fst fetched of
                     Some sessionKey \<Rightarrow> (Inr sessionKey, snd fetched)
                   | None \<Rightarrow>
                       (let sessionKey = fresh;
                            exportedKey = exportAESKey sessionKey;
                            w1 = cacheKey username sessionKey (snd fetched);
                            w2 = setItem (conversationKeyName currentUser username) exportedKey w1
                        in (Inr sessionKey,
                            exchangeSessionKey_srv P currentUser username sessionKey w2)))))"

text \<open>\<^verbatim>\<open>decryptMessage\<close> (Login.tsx lines 349-376), which checks the number of parts.\<close>

definition open_envelope_srv ::
  "('pub, 'priv) platform \<Rightarrow> string \<Rightarrow> string \<Rightarrow> bytes \<Rightarrow> error + string \<times> bool" where
  "open_envelope_srv P envelope digest sessionKey =
     (case split_on CHR '':'' envelope of
        [ciphertext, iv] \<Rightarrow>
          (case aesDecrypt P ciphertext iv sessionKey of
             Inl err \<Rightarrow> Inl err
           | Inr decryptedContent \<Rightarrow>
               (let computedHash = sha256 P decryptedContent;
                    verified = (computedHash = digest)
                in Inr (decryptedContent, verified)))
      | _ \<Rightarrow> Inl InvalidEncryptedContentFormat)"

definition decryptMessage_srv ::
  "('pub, 'priv) platform \<Rightarrow> string \<Rightarrow> bytes \<Rightarrow> message \<Rightarrow> 'priv tab
     \<Rightarrow> (error + DecryptedMessage) \<times> 'priv tab" where
  "decryptMessage_srv P currentUser fresh msg w =
     (let got = getOrCreateSessionKey_srv P currentUser (otherUser_of currentUser msg) fresh w
      in case fst got of
           Inl err \<Rightarrow> (Inl err, snd got)
         | Inr sessionKey \<Rightarrow>
             (case open_envelope_srv P (encryptedContent msg) (messageHash msg) sessionKey of
                Inl err \<Rightarrow> (Inl err, snd got)
              | Inr opened \<Rightarrow>
                  (Inr \<lparr>dm_id = msg_id msg, dm_sender = sender msg, dm_receiver = receiver msg,
                        content = fst opened, dm_timestamp = timestamp msg,
                        verified = snd opened\<rparr>,
                   snd got)))"

section \<open>The application shell: \<^verbatim>\<open>App.tsx\<close>\<close>

text \<open>
  \<^verbatim>\<open>App\<close> holds the view and the current user and renders \<^verbatim>\<open>Chat\<close> only while
  \<^verbatim>\<open>currentView === 'chat' && currentUser\<close> (App.tsx line 65). A component that is no longer
  rendered is unmounted and its refs are gone; \<open>rerender\<close> puts the component back to
  \<open>initial_chat\<close> then, which is also how a later mount starts.
\<close>

datatype view = LoginView | RegisterView | ChatView

record 'priv app =
  currentView :: view
  currentUser :: "string option"
  page :: "'priv tab"







section \<open>Predicates of the statements, a stand-in platform and a small scenario\<close>

text \<open>
  \<open>exchange_succeeds\<close>: the \<^verbatim>\<open>try\<close> of \<^verbatim>\<open>exchangeSessionKey\<close> reaches its last statement,
  that is, the server answers with the peer's public key, the key imports and the RSA
  encryption of the exported session key does not throw.
\<close>

definition exchange_succeeds ::
  "('pub, 'priv) platform \<Rightarrow> server \<Rightarrow> string \<Rightarrow> bytes \<Rightarrow> bool" where
  "exchange_succeeds P s username sessionKey =
     (db_ok s \<and>
      (case PublicKey s username of
         None \<Rightarrow> False
       | Some publicKey \<Rightarrow>
           (case importRSAPublicKey P publicKey of
              Inl err \<Rightarrow> False
            | Inr theirPublicKey \<Rightarrow>
                (case rsaEncrypt P (exportAESKey sessionKey) theirPublicKey of
                   Inl err \<Rightarrow> False
                 | Inr encrypted \<Rightarrow> True))))"

text \<open>The tab with the directed records of the server replaced by \<open>r\<close>.\<close>

definition with_records :: "((string \<times> string) \<rightharpoonup> string) \<Rightarrow> 'priv tab \<Rightarrow> 'priv tab" where
  "with_records r w = w\<lparr>net := (net w)\<lparr>srv := (srv (net w))\<lparr>SessionKey := r\<rparr>\<rparr>\<rparr>"

text \<open>
  A transparent stand-in for the platform, to run the model on concrete inputs: it has the
  laws assumed of Web Crypto and no secrecy. ``Encryption'' tags the plaintext with the key
  (and the iv); a key pair is a byte string and itself.
\<close>

definition demo_platform :: "(bytes, bytes) platform" where
  "demo_platform =
     \<lparr>utf8_encode = (\<lambda>s. s),
      utf8_decode = (\<lambda>bs. bs),
      sha256_digest = (\<lambda>bs. [char_of (sum_list (map of_char bs) :: nat)]),
      aes_gcm_encrypt = (\<lambda>k iv p. k @ iv @ p),
      aes_gcm_decrypt = (\<lambda>k iv c. if take (length k + length iv) c = k @ iv
                                   then Some (drop (length k + length iv) c) else None),
      spki_import = (\<lambda>bs. if bs = [] then None else Some bs),
      rsa_oaep_encrypt = (\<lambda>pub m. if length m \<le> 190 then Some (pub @ m) else None),
      rsa_oaep_decrypt = (\<lambda>priv c. if take (length priv) c = priv
                                    then Some (drop (length priv) c) else None)\<rparr>"

definition demo_key :: bytes where
  "demo_key = ''0123456789abcdef0123456789abcdef''"

definition demo_iv :: bytes where
  "demo_iv = ''0123456789ab''"

definition demo_key2 :: bytes where
  "demo_key2 = ''fedcba9876543210fedcba9876543210''"

text \<open>
  Alice, Bob and Carol are registered; Bob has logged in (his public key is published),
  Carol has not. Alice's tab has a freshly mounted chat component and empty storage.
\<close>

definition demo_server :: server where
  "demo_server =
     \<lparr>User = [''alice'', ''bob'', ''carol''],
      PublicKey = [''bob'' \<mapsto> btoa ''bob-key''],
      SessionKey = Map.empty,
      Message = [],
      clock = 0,
      db_ok = True\<rparr>"

definition demo_tab :: "bytes tab" where
  "demo_tab =
     \<lparr>chat = initial_chat, localStorage = Map.empty, sessionStorage = Map.empty,
      net = \<lparr>srv = demo_server, requests = []\<rparr>\<rparr>"

text \<open>A stored message from Bob to Alice: ``hello'' sealed under \<open>demo_key\<close>.\<close>

definition demo_message :: message where
  "demo_message =
     \<lparr>msg_id = 7, sender = ''bob'', receiver = ''alice'',
      encryptedContent = fst (seal demo_platform demo_iv ''hello'' demo_key),
      messageHash = snd (seal demo_platform demo_iv ''hello'' demo_key),
      timestamp = 7\<rparr>"

text \<open>
  Another stored message from Bob to Alice, older, whose envelope has no delimiter; the
  server holding both; and Alice's tab with Bob selected and his key in the cache.
\<close>

definition demo_garbled :: message where
  "demo_garbled =
     \<lparr>msg_id = 3, sender = ''bob'', receiver = ''alice'', encryptedContent = ''garbled'',
      messageHash = ''14'', timestamp = 3\<rparr>"

definition demo_tab_chatting :: "bytes tab" where
  "demo_tab_chatting =
     \<lparr>chat = initial_chat\<lparr>aesKeysRef := [''bob'' \<mapsto> demo_key], selectedUser := Some ''bob''\<rparr>,
      localStorage = Map.empty, sessionStorage = Map.empty,
      net = \<lparr>srv = demo_server\<lparr>Message := [demo_garbled, demo_message], clock := 8\<rparr>,
             requests = []\<rparr>\<rparr>"





chapter \<open>Properties\<close>

section \<open>Base64 and \<^verbatim>\<open>split\<close>\<close>

lemma index_of_nth: "distinct xs \<Longrightarrow> n < length xs \<Longrightarrow> index_of (xs ! n) xs = Some n"
proof (induction xs arbitrary: n)
  case Nil
  then show ?case by simp
next
  case (Cons x xs)
  show ?case
  proof (cases n)
    case 0
    then show ?thesis by simp
  next
    case (Suc m)
    with Cons.prems have "xs ! m \<noteq> x" "m < length xs" by auto
    with Cons Suc show ?thesis by simp
  qed
qed

lemma b64_alphabet_distinct: "distinct b64_alphabet"
  by (simp add: b64_alphabet_def)

lemma b64_alphabet_length: "length b64_alphabet = 64"
  by (simp add: b64_alphabet_def)

lemma b64_index_char: "n < 64 \<Longrightarrow> b64_index (b64_char n) = Some n"
  by (simp add: b64_index_def b64_char_def index_of_nth b64_alphabet_distinct b64_alphabet_length)

lemma b64_char_in: "n < 64 \<Longrightarrow> b64_char n \<in> set b64_alphabet"
  by (simp add: b64_char_def b64_alphabet_length)

lemma b64_alphabet_plain:
  "c \<in> set b64_alphabet \<Longrightarrow> c \<noteq> CHR ''='' \<and> c \<noteq> CHR '':'' \<and> \<not> ascii_whitespace c"
  by (auto simp: b64_alphabet_def ascii_whitespace_def)

lemma of_char_lt: "(of_char (a::char) :: nat) < 256"
  by (metis of_char_mod_256 mod_less_divisor zero_less_numeral)

lemma sextet_bounds:
  "(a::nat) < 256 \<Longrightarrow> a div 4 < 64"
  "(b::nat) < 256 \<Longrightarrow> a mod 4 * 16 + b div 16 < 64"
  "(c::nat) < 256 \<Longrightarrow> b mod 16 * 4 + c div 64 < 64"
  "a mod 4 * 16 < 64" "b mod 16 * 4 < 64" "c mod 64 < 64"
  by simp_all

lemma b64_sextets_lt: "n \<in> set (b64_sextets bs) \<Longrightarrow> n < 64"
proof (induction bs rule: b64_sextets.induct)
  case (4 a b c rest)
  then show ?case using sextet_bounds of_char_lt by auto
next
  case (3 a b)
  then show ?case using sextet_bounds of_char_lt by auto
next
  case (2 a)
  then show ?case using sextet_bounds of_char_lt by auto
qed simp

lemma b64_encode_split: "b64_encode bs = map b64_char (b64_sextets bs) @ b64_padding bs"
  by (induction bs rule: b64_encode.induct) simp_all

lemma recombine_1: "b < 256 \<Longrightarrow> (a::nat) div 4 * 4 + (a mod 4 * 16 + b div 16) div 16 = a"
  by simp

lemma recombine_2a: "c < 256 \<Longrightarrow> ((b::nat) mod 16 * 4 + c div 64) div 4 = b mod 16"
  by simp

lemma recombine_2b: "b < 256 \<Longrightarrow> ((a::nat) mod 4 * 16 + b div 16) mod 16 = b div 16"
  by simp

lemma recombine_3: "c < 256 \<Longrightarrow> ((b::nat) mod 16 * 4 + c div 64) mod 4 * 64 + c mod 64 = c"
  by simp

lemma b64_decode_sextets_inv: "b64_decode_sextets (b64_sextets bs) = bs"
proof (induction bs rule: b64_sextets.induct)
  case (4 a b c rest)
  have "(of_char b :: nat) < 256" "(of_char c :: nat) < 256"
    by (rule of_char_lt)+
  then have "(of_char a :: nat) div 4 * 4 + (of_char a mod 4 * 16 + of_char b div 16) div 16 = of_char a"
    "((of_char b :: nat) mod 16 * 4 + of_char c div 64) div 4 = of_char b mod 16"
    "((of_char a :: nat) mod 4 * 16 + of_char b div 16) mod 16 = of_char b div 16"
    "((of_char b :: nat) mod 16 * 4 + of_char c div 64) mod 4 * 64 + of_char c mod 64 = of_char c"
    by (simp_all only: recombine_1 recombine_2a recombine_2b recombine_3)
  with 4 show ?case
    by (simp only: b64_sextets.simps b64_decode_sextets.simps append_Cons append_Nil
        char_of_char div_mult_mod_eq)
next
  case (3 a b)
  have "(of_char b :: nat) < 256" by (rule of_char_lt)
  then have "(of_char a :: nat) div 4 * 4 + (of_char a mod 4 * 16 + of_char b div 16) div 16 = of_char a"
    "((of_char a :: nat) mod 4 * 16 + of_char b div 16) mod 16 = of_char b div 16"
    by (simp_all only: recombine_1 recombine_2b)
  moreover have "(of_char b :: nat) mod 16 * 4 div 4 = of_char b mod 16" by simp
  ultimately show ?case
    by (simp only: b64_sextets.simps b64_decode_sextets.simps char_of_char div_mult_mod_eq)
next
  case (2 a)
  have "(of_char a :: nat) div 4 * 4 + of_char a mod 4 * 16 div 16 = of_char a" by simp
  then show ?case
    by (simp only: b64_sextets.simps b64_decode_sextets.simps char_of_char)
qed simp

lemma b64_sextets_length: "length (b64_sextets bs) mod 4 \<noteq> Suc 0"
  by (induction bs rule: b64_sextets.induct) simp_all

lemma b64_encode_length: "length (b64_encode bs) mod 4 = 0"
  by (induction bs rule: b64_encode.induct) simp_all

lemma b64_core_plain:
  "c \<in> set (map b64_char (b64_sextets bs)) \<Longrightarrow> c \<in> set b64_alphabet"
  using b64_sextets_lt [of _ bs] by (auto simp: b64_char_in)

lemma b64_padding_cases: "b64_padding bs = [] \<or> b64_padding bs = ''='' \<or> b64_padding bs = ''==''"
  by (induction bs rule: b64_padding.induct) simp_all

lemma strip_padding_core:
  assumes "\<forall>c \<in> set xs. c \<noteq> CHR ''=''"
  shows "strip_padding xs = xs" and "strip_padding (xs @ ''='') = xs"
    and "strip_padding (xs @ ''=='') = xs"
proof -
  from assms have *: "xs = [] \<or> last xs \<noteq> CHR ''=''"
    by (cases xs rule: rev_cases) simp_all
  then show "strip_padding xs = xs"
    by (auto simp add: strip_padding_def)
  from * show "strip_padding (xs @ ''='') = xs"
    by (auto simp add: strip_padding_def)
  have "butlast (xs @ ''=='') = xs @ ''=''"
    by (simp add: butlast_append)
  then show "strip_padding (xs @ ''=='') = xs"
    by (simp add: strip_padding_def)
qed

lemma b64_core_no_pad: "\<forall>c \<in> set (map b64_char (b64_sextets bs)). c \<noteq> CHR ''=''"
proof
  fix c assume "c \<in> set (map b64_char (b64_sextets bs))"
  then have "c \<in> set b64_alphabet" by (rule b64_core_plain)
  then show "c \<noteq> CHR ''=''" by (simp add: b64_alphabet_plain)
qed

lemma strip_padding_encode: "strip_padding (b64_encode bs) = map b64_char (b64_sextets bs)"
  using b64_padding_cases [of bs] strip_padding_core [OF b64_core_no_pad, of bs]
  by (auto simp only: b64_encode_split append_Nil2)

lemma filter_ws_encode: "filter (\<lambda>c. \<not> ascii_whitespace c) (b64_encode bs) = b64_encode bs"
proof -
  have "\<not> ascii_whitespace c" if "c \<in> set (b64_encode bs)" for c
  proof -
    from that have "c \<in> set (map b64_char (b64_sextets bs)) \<or> c \<in> set (b64_padding bs)"
      by (simp add: b64_encode_split)
    then show ?thesis
    proof
      assume "c \<in> set (map b64_char (b64_sextets bs))"
      then show ?thesis using b64_core_plain b64_alphabet_plain by blast
    next
      assume "c \<in> set (b64_padding bs)"
      then have "c = CHR ''=''" using b64_padding_cases [of bs] by auto
      then show ?thesis by (simp add: ascii_whitespace_def)
    qed
  qed
  then show ?thesis by (simp add: filter_id_conv)
qed

lemma those_map_Some: "\<forall>x \<in> set xs. f x = Some (g x) \<Longrightarrow> those (map f xs) = Some (map g xs)"
  by (induction xs) simp_all

lemma those_index_core: "those (map b64_index (map b64_char (b64_sextets bs))) = Some (b64_sextets bs)"
proof -
  have "those (map (b64_index \<circ> b64_char) (b64_sextets bs)) = Some (map id (b64_sextets bs))"
    by (rule those_map_Some) (use b64_sextets_lt [of _ bs] in \<open>auto simp: b64_index_char\<close>)
  then show ?thesis by (simp add: comp_def)
qed

lemma atob_btoa: "atob (btoa bs) = Some bs"
  by (simp add: atob_def btoa_def filter_ws_encode b64_encode_length strip_padding_encode
      b64_sextets_length those_index_core b64_decode_sextets_inv del: map_map)

lemma btoa_no_colon: "CHR '':'' \<notin> set (btoa bs)"
proof
  assume "CHR '':'' \<in> set (btoa bs)"
  then have "CHR '':'' \<in> set (map b64_char (b64_sextets bs)) \<or> CHR '':'' \<in> set (b64_padding bs)"
    by (simp add: btoa_def b64_encode_split)
  then show False
  proof
    assume "CHR '':'' \<in> set (map b64_char (b64_sextets bs))"
    then show False using b64_core_plain b64_alphabet_plain by blast
  next
    assume "CHR '':'' \<in> set (b64_padding bs)"
    then show False using b64_padding_cases [of bs] by auto
  qed
qed

lemma btoa_nonempty: "bs \<noteq> [] \<Longrightarrow> btoa bs \<noteq> []"
  by (cases bs rule: b64_encode.cases) (simp_all add: btoa_def)

lemma length_b64_encode: "length (b64_encode bs) = 4 * ((length bs + 2) div 3)"
proof (induction bs rule: b64_encode.induct)
  case (4 a b c rest)
  have "(length (a # b # c # rest) + 2) div 3 = Suc ((length rest + 2) div 3)"
    by simp
  with 4 show ?case by (simp del: div_add_self1 div_add_self2)
qed simp_all

lemma length_btoa: "length (btoa bs) = 4 * ((length bs + 2) div 3)"
  by (simp add: btoa_def length_b64_encode)

lemma atob_undefined: "atob ''undefined'' = None"
  by (simp add: atob_def ascii_whitespace_def)

lemma split_on_not_Nil: "split_on d s \<noteq> []"
  by (induction s) (auto split: list.splits)

lemma split_on_plain: "d \<notin> set a \<Longrightarrow> split_on d a = [a]"
  by (induction a) auto

lemma split_on_append: "d \<notin> set a \<Longrightarrow> split_on d (a @ d # rest) = a # split_on d rest"
  by (induction a) auto

lemma importAESKey_export:
  "aes_key_length (length k) \<Longrightarrow> importAESKey (exportAESKey k) = Inr k"
  by (simp add: importAESKey_def exportAESKey_def atob_btoa)

lemma importAESKey_errors:
  "importAESKey st = Inl e \<Longrightarrow> e = InvalidCharacterError \<or> e = DataError"
  by (auto simp: importAESKey_def split: option.splits if_splits)


section \<open>The steps of key establishment in \<^verbatim>\<open>Chat.tsx\<close>\<close>

lemma tab_simps [simp]:
  "chat (setItem n v w) = chat w"
  "localStorage (setItem n v w) = (localStorage w)(n \<mapsto> v)"
  "sessionStorage (setItem n v w) = sessionStorage w"
  "net (setItem n v w) = net w"
  "chat (cacheKey u k w) = (chat w)\<lparr>aesKeysRef := (aesKeysRef (chat w))(u \<mapsto> k)\<rparr>"
  "localStorage (cacheKey u k w) = localStorage w"
  "sessionStorage (cacheKey u k w) = sessionStorage w"
  "net (cacheKey u k w) = net w"
  by (simp_all add: setItem_def cacheKey_def)

lemma chatAPI_GetPublicKey:
  "chatAPI (GetPublicKey u) d =
     (if db_ok (srv d) then
        (case PublicKey (srv d) u of
           None \<Rightarrow> Inl (AxiosError 404)
         | Some pk \<Rightarrow> Inr (PublicKeyBody u pk))
      else Inl (AxiosError 500),
      \<lparr>srv = srv d, requests = requests d @ [GetPublicKey u]\<rparr>)"
  by (simp add: chatAPI_def get_public_key_def Let_def split: option.splits)

lemma exchangeSessionKey_eq:
  "exchangeSessionKey P cu u k w =
     (let w1 = w\<lparr>net := \<lparr>srv = srv (net w), requests = requests (net w) @ [GetPublicKey u]\<rparr>\<rparr>
      in if exchange_succeeds P (srv (net w)) u k
         then setItem (sessionKeyName u cu) (exportAESKey k) w1 else w1)"
  by (simp add: exchangeSessionKey_def chatAPI_GetPublicKey exchange_succeeds_def Let_def
      split: option.splits sum.splits)


lemma getOrCreateSessionKey_cached:
  "aesKeysRef (chat w) u = Some k \<Longrightarrow> getOrCreateSessionKey P cu u fresh w = (Inr k, w)"
  by (simp add: getOrCreateSessionKey_def)

lemma getOrCreateSessionKey_stored:
  "aesKeysRef (chat w) u = None \<Longrightarrow> truthy (localStorage w (sessionKeyName cu u)) = Some st \<Longrightarrow>
   getOrCreateSessionKey P cu u fresh w =
     (case importAESKey st of Inl e \<Rightarrow> (Inl e, w) | Inr k \<Rightarrow> (Inr k, cacheKey u k w))"
  by (simp add: getOrCreateSessionKey_def)





lemma with_records_simps [simp]:
  "chat (with_records r w) = chat w"
  "localStorage (with_records r w) = localStorage w"
  "sessionStorage (with_records r w) = sessionStorage w"
  "requests (net (with_records r w)) = requests (net w)"
  "db_ok (srv (net (with_records r w))) = db_ok (srv (net w))"
  "PublicKey (srv (net (with_records r w))) = PublicKey (srv (net w))"
  "SessionKey (srv (net (with_records r w))) = r"
  by (simp_all add: with_records_def)




lemma findSessionKey_cached:
  "aesKeysRef (chat w) u = Some k \<Longrightarrow> findSessionKey cu u w = (Inr k, w)"
  by (simp add: findSessionKey_def)


section \<open>The envelope and \<^verbatim>\<open>decryptMessage\<close>\<close>

lemma split_envelope:
  "split_on CHR '':'' (btoa ct @ CHR '':'' # btoa iv) = [btoa ct, btoa iv]"
  by (simp add: split_on_append split_on_plain btoa_no_colon)


lemma aesDecrypt_aesEncrypt:
  assumes "aes_gcm_correct P" and "utf8_correct P"
    and "aes_key_length (length k)" and "length iv = 12"
  shows "aesDecrypt P (fst (aesEncrypt P iv p k)) (snd (aesEncrypt P iv p k)) k = Inr p"
  using assms
  by (simp add: aesDecrypt_def aesEncrypt_def Let_def atob_btoa aes_gcm_correct_def
      utf8_correct_def)

lemma aesDecrypt_undefined: "aesDecrypt P whole ''undefined'' k = Inl InvalidCharacterError"
  by (simp add: aesDecrypt_def atob_undefined split: option.splits)

lemma open_envelope_eq:
  "open_envelope P env d k =
     (case aesDecrypt P (fst (first_two (split_on CHR '':'' env)))
             (snd (first_two (split_on CHR '':'' env))) k of
        Inl e \<Rightarrow> Inl e
      | Inr p \<Rightarrow> Inr (p, sha256 P p = d))"
  by (simp add: open_envelope_def Let_def split: sum.splits)

lemma open_envelope_seal:
  assumes "aes_gcm_correct P" and "utf8_correct P"
    and "aes_key_length (length k)" and "length iv = 12"
  shows "open_envelope P (fst (seal P iv p k)) (snd (seal P iv p k)) k = Inr (p, True)"
proof -
  have "first_two (split_on CHR '':'' (fst (seal P iv p k))) =
      (fst (aesEncrypt P iv p k), snd (aesEncrypt P iv p k))"
    by (simp add: seal_def Let_def aesEncrypt_def split_envelope)
  then show ?thesis
    using aesDecrypt_aesEncrypt [OF assms, of p]
    by (simp add: open_envelope_def Let_def) (simp add: seal_def Let_def)
qed

lemma open_envelope_no_delimiter:
  "CHR '':'' \<notin> set env \<Longrightarrow> open_envelope P env d k = Inl InvalidCharacterError"
  by (simp add: open_envelope_eq split_on_plain aesDecrypt_undefined)

lemma decryptMessage_eq:
  "decryptMessage P cu msg w =
     (case fst (findSessionKey cu (otherUser_of cu msg) w) of
        Inl e \<Rightarrow> (Inl e, snd (findSessionKey cu (otherUser_of cu msg) w))
      | Inr k \<Rightarrow>
          (case open_envelope P (encryptedContent msg) (messageHash msg) k of
             Inl e \<Rightarrow> (Inl e, snd (findSessionKey cu (otherUser_of cu msg) w))
           | Inr opened \<Rightarrow>
               (Inr \<lparr>dm_id = msg_id msg, dm_sender = sender msg, dm_receiver = receiver msg,
                     content = fst opened, dm_timestamp = timestamp msg,
                     verified = snd opened\<rparr>,
                snd (findSessionKey cu (otherUser_of cu msg) w))))"
  by (simp add: decryptMessage_def Let_def)

lemma otherUser_of_digest [simp]:
  "otherUser_of cu (msg\<lparr>messageHash := d\<rparr>) = otherUser_of cu msg"
  by (simp add: otherUser_of_def)

lemma findSessionKey_frame:
  "localStorage (snd (findSessionKey cu u w)) = localStorage w"
  "sessionStorage (snd (findSessionKey cu u w)) = sessionStorage w"
  "net (snd (findSessionKey cu u w)) = net w"
  by (simp_all add: findSessionKey_def split: option.splits sum.splits)

lemma findSessionKey_again:
  "fst (findSessionKey cu u (snd (findSessionKey cu u' w))) = fst (findSessionKey cu u w)"
  by (cases "u = u'") (auto simp: findSessionKey_def split: option.splits sum.splits)

lemma findSessionKey_net:
  "findSessionKey cu u (w\<lparr>net := n\<rparr>) =
     (fst (findSessionKey cu u w), (snd (findSessionKey cu u w))\<lparr>net := n\<rparr>)"
  by (simp add: findSessionKey_def cacheKey_def split: option.splits sum.splits)

lemma decryptMessage_fst:
  "fst (decryptMessage P cu msg w) =
     (case fst (findSessionKey cu (otherUser_of cu msg) w) of
        Inl e \<Rightarrow> Inl e
      | Inr k \<Rightarrow>
          (case open_envelope P (encryptedContent msg) (messageHash msg) k of
             Inl e \<Rightarrow> Inl e
           | Inr opened \<Rightarrow>
               Inr \<lparr>dm_id = msg_id msg, dm_sender = sender msg, dm_receiver = receiver msg,
                    content = fst opened, dm_timestamp = timestamp msg,
                    verified = snd opened\<rparr>))"
  by (simp add: decryptMessage_eq split: sum.splits)

lemma decryptMessage_snd:
  "snd (decryptMessage P cu msg w) = snd (findSessionKey cu (otherUser_of cu msg) w)"
  by (simp add: decryptMessage_eq split: sum.splits)

lemma decryptMessage_again:
  "fst (decryptMessage P cu msg (snd (decryptMessage P cu msg' w))) = fst (decryptMessage P cu msg w)"
  by (simp add: decryptMessage_fst decryptMessage_snd findSessionKey_again)

lemma decryptMessage_net:
  "fst (decryptMessage P cu msg (w\<lparr>net := n\<rparr>)) = fst (decryptMessage P cu msg w)"
  by (simp add: decryptMessage_fst findSessionKey_net)

lemma decrypt_each_map:
  "fst (decrypt_each P cu msgs w) =
     map (\<lambda>m. case fst (decryptMessage P cu m w) of Inr d \<Rightarrow> d | Inl e \<Rightarrow> decryption_failed m) msgs"
proof (induction msgs arbitrary: w)
  case Nil
  show ?case by simp
next
  case (Cons msg msgs)
  show ?case
    by (simp add: Let_def Cons.IH decryptMessage_again)
qed

lemma fetchMessages_messages:
  assumes "truthy (selectedUser (chat w)) = Some su"
    and "fst (chatAPI (GetMessages cu su) (net w)) = Inr (MessagesBody msgs)"
  shows "messages (chat (fetchMessages P cu w)) = fst (decrypt_each P cu msgs (w\<lparr>net := snd (chatAPI (GetMessages cu su) (net w))\<rparr>))"
  using assms by (simp add: fetchMessages_def Let_def)

section \<open>The private key and the other state of the tab\<close>

lemma with_private_key_simps [simp]:
  "localStorage (with_private_key pk w) = localStorage w"
  "sessionStorage (with_private_key pk w) = sessionStorage w"
  "net (with_private_key pk w) = net w"
  "aesKeysRef (chat (with_private_key pk w)) = aesKeysRef (chat w)"
  "selectedUser (chat (with_private_key pk w)) = selectedUser (chat w)"
  "newMessage (chat (with_private_key pk w)) = newMessage (chat w)"
  "privateKeyRef (chat (with_private_key pk w)) = pk"
  "with_private_key pk (with_private_key pk' w) = with_private_key pk w"
  "with_private_key (privateKeyRef (chat w)) w = w"
  by (simp_all add: with_private_key_def)

lemma with_private_key_commute:
  "cacheKey u k (with_private_key pk w) = with_private_key pk (cacheKey u k w)"
  "setItem n v (with_private_key pk w) = with_private_key pk (setItem n v w)"
  "(with_private_key pk w)\<lparr>net := d\<rparr> = with_private_key pk (w\<lparr>net := d\<rparr>)"
  by (simp_all add: with_private_key_def cacheKey_def setItem_def)

lemma exchangeSessionKey_private:
  "exchangeSessionKey P cu u k (with_private_key pk w) =
     with_private_key pk (exchangeSessionKey P cu u k w)"
  by (simp add: exchangeSessionKey_eq Let_def with_private_key_commute)

lemma getOrCreateSessionKey_private:
  "getOrCreateSessionKey P cu u fresh (with_private_key pk w) =
     (fst (getOrCreateSessionKey P cu u fresh w),
      with_private_key pk (snd (getOrCreateSessionKey P cu u fresh w)))"
  by (simp add: getOrCreateSessionKey_def Let_def with_private_key_commute
      exchangeSessionKey_private split: option.splits sum.splits)

lemma findSessionKey_private:
  "findSessionKey cu u (with_private_key pk w) =
     (fst (findSessionKey cu u w), with_private_key pk (snd (findSessionKey cu u w)))"
  by (simp add: findSessionKey_def with_private_key_commute split: option.splits sum.splits)

lemma decryptMessage_private:
  "decryptMessage P cu msg (with_private_key pk w) =
     (fst (decryptMessage P cu msg w), with_private_key pk (snd (decryptMessage P cu msg w)))"
  by (simp add: decryptMessage_eq findSessionKey_private split: sum.splits)

lemma decrypt_each_private:
  "decrypt_each P cu msgs (with_private_key pk w) =
     (fst (decrypt_each P cu msgs w), with_private_key pk (snd (decrypt_each P cu msgs w)))"
  by (induction msgs arbitrary: w) (simp_all add: Let_def decryptMessage_private)

lemma set_messages_private:
  "(with_private_key pk w)\<lparr>chat := (chat (with_private_key pk w))\<lparr>messages := ms\<rparr>\<rparr> =
     with_private_key pk (w\<lparr>chat := (chat w)\<lparr>messages := ms\<rparr>\<rparr>)"
  by (simp add: with_private_key_def)

lemma fetchMessages_private:
  "fetchMessages P cu (with_private_key pk w) = with_private_key pk (fetchMessages P cu w)"
  by (simp add: fetchMessages_def Let_def with_private_key_commute decrypt_each_private
      set_messages_private split: option.splits sum.splits response.splits)

lemma fetchUsers_private:
  "fetchUsers cu (with_private_key pk w) = with_private_key pk (fetchUsers cu w)"
  by (simp add: fetchUsers_def Let_def split: sum.splits response.splits)
    (simp add: with_private_key_def)

lemma sending_state_private:
  "(with_private_key pk w)\<lparr>chat := (chat (with_private_key pk w))\<lparr>loading := l, error_text := e\<rparr>\<rparr> =
     with_private_key pk (w\<lparr>chat := (chat w)\<lparr>loading := l, error_text := e\<rparr>\<rparr>)"
  "(with_private_key pk w)\<lparr>chat := (chat (with_private_key pk w))\<lparr>error_text := e, loading := l\<rparr>\<rparr> =
     with_private_key pk (w\<lparr>chat := (chat w)\<lparr>error_text := e, loading := l\<rparr>\<rparr>)"
  "(with_private_key pk w)\<lparr>chat := (chat (with_private_key pk w))\<lparr>newMessage := t\<rparr>\<rparr> =
     with_private_key pk (w\<lparr>chat := (chat w)\<lparr>newMessage := t\<rparr>\<rparr>)"
  "(with_private_key pk w)\<lparr>chat := (chat (with_private_key pk w))\<lparr>loading := l\<rparr>\<rparr> =
     with_private_key pk (w\<lparr>chat := (chat w)\<lparr>loading := l\<rparr>\<rparr>)"
  "(with_private_key pk w)\<lparr>chat := (chat (with_private_key pk w))\<lparr>selectedUser := s\<rparr>\<rparr> =
     with_private_key pk (w\<lparr>chat := (chat w)\<lparr>selectedUser := s\<rparr>\<rparr>)"
  by (simp_all add: with_private_key_def)

lemma handleSendMessage_private:
  "handleSendMessage P cu fresh iv (with_private_key pk w) =
     with_private_key pk (handleSendMessage P cu fresh iv w)"
proof (cases "truthy (selectedUser (chat w))")
  case None
  then show ?thesis by (simp add: handleSendMessage_def)
next
  case (Some su)
  show ?thesis
  proof (cases "trim (newMessage (chat w)) = []")
    case True
    with Some show ?thesis by (simp add: handleSendMessage_def)
  next
    case False
    let ?w0 = "w\<lparr>chat := (chat w)\<lparr>loading := True, error_text := []\<rparr>\<rparr>"
    let ?k = "getOrCreateSessionKey P cu su fresh ?w0"
    show ?thesis
    proof (cases "fst ?k")
      case (Inl err)
      with Some False show ?thesis
        by (simp add: handleSendMessage_def Let_def sending_state_private
            getOrCreateSessionKey_private)
    next
      case (Inr sessionKey)
      with Some False show ?thesis
        by (simp add: handleSendMessage_def Let_def sending_state_private
            getOrCreateSessionKey_private with_private_key_commute fetchMessages_private
            split: sum.splits)
    qed
  qed
qed

lemma initializeKeys_private:
  "initializeKeys cu keyPair (with_private_key pk w) = initializeKeys cu keyPair w"
  by (simp add: initializeKeys_def Let_def with_private_key_def split: sum.splits)

lemma initializeKeys_public:
  "with_private_key pk (initializeKeys cu (spki, priv) w) =
     with_private_key pk (initializeKeys cu (spki, priv') w)"
  by (simp add: initializeKeys_def Let_def with_private_key_def generateRSAKeyPair_def
      split: sum.splits)

lemma perform_private:
  "with_private_key pk (perform P cu a (with_private_key pk' w)) =
     with_private_key pk (perform P cu a w)"
  by (cases a)
    (simp_all add: initializeKeys_private fetchUsers_private sending_state_private
      fetchMessages_private getOrCreateSessionKey_private exchangeSessionKey_private
      decryptMessage_private handleSendMessage_private)

lemma public_part_cases:
  assumes "public_part a1 = public_part a2"
  shows "a1 = a2 \<or> (\<exists>spki p1 p2. a1 = DoInitializeKeys (spki, p1) \<and> a2 = DoInitializeKeys (spki, p2))"
  using assms by (cases a1; cases a2) (auto simp: public_part_def)

lemma perform_public:
  assumes "without_private_key w1 = without_private_key w2"
    and "public_part a1 = public_part a2"
  shows "without_private_key (perform P cu a1 w1) = without_private_key (perform P cu a2 w2)"
proof -
  have "without_private_key (perform P cu a1 w1) =
      without_private_key (perform P cu a1 (without_private_key w1))"
    unfolding without_private_key_def by (simp add: perform_private)
  also have "\<dots> = without_private_key (perform P cu a2 (without_private_key w2))"
    using public_part_cases [OF assms(2)] assms(1)
    by (auto simp: without_private_key_def initializeKeys_public)
  also have "\<dots> = without_private_key (perform P cu a2 w2)"
    unfolding without_private_key_def by (simp add: perform_private)
  finally show ?thesis .
qed

lemma perform_all_public:
  assumes "without_private_key w1 = without_private_key w2"
    and "map public_part as1 = map public_part as2"
  shows "without_private_key (perform_all P cu as1 w1) =
         without_private_key (perform_all P cu as2 w2)"
  using assms
proof (induction as1 arbitrary: as2 w1 w2)
  case Nil
  then show ?case by simp
next
  case (Cons a as1)
  then obtain b bs where as2: "as2 = b # bs" by (cases as2) auto
  with Cons.prems have ab: "public_part a = public_part b"
    and rest: "map public_part as1 = map public_part bs"
    by simp_all
  have "without_private_key (perform P cu a w1) = without_private_key (perform P cu b w2)"
    using Cons.prems(1) ab by (rule perform_public)
  then have "without_private_key (perform_all P cu as1 (perform P cu a w1)) =
      without_private_key (perform_all P cu bs (perform P cu b w2))"
    using rest by (rule Cons.IH)
  then show ?case
    unfolding as2 by simp
qed

section \<open>Logout\<close>






section \<open>The stand-in platform and the scenario\<close>

lemma demo_platform_correct: "aes_gcm_correct demo_platform" "utf8_correct demo_platform"
  by (simp_all add: aes_gcm_correct_def utf8_correct_def demo_platform_def)

lemma demo_keys:
  "length demo_key = 32" "length demo_key2 = 32" "length demo_iv = 12"
  "demo_key \<noteq> demo_key2"
  "importAESKey (exportAESKey demo_key) = Inr demo_key"
  "importAESKey (exportAESKey demo_key2) = Inr demo_key2"
  by (simp_all add: demo_key_def demo_key2_def demo_iv_def importAESKey_export aes_key_length_def)


lemma demo_tab_simps:
  "aesKeysRef (chat demo_tab) u = None"
  "localStorage demo_tab n = None"
  "srv (net demo_tab) = demo_server"
  "requests (net demo_tab) = []"
  by (simp_all add: demo_tab_def initial_chat_def)



lemma demo_message_simps:
  "otherUser_of ''alice'' demo_message = ''bob''"
  "encryptedContent demo_message = fst (seal demo_platform demo_iv ''hello'' demo_key)"
  "messageHash demo_message = snd (seal demo_platform demo_iv ''hello'' demo_key)"
  "msg_id demo_message = 7" "sender demo_message = ''bob''" "receiver demo_message = ''alice''"
  "timestamp demo_message = 7"
  by (simp_all add: demo_message_def otherUser_of_def)

lemma demo_open:
  "open_envelope demo_platform (fst (seal demo_platform demo_iv ''hello'' demo_key))
     (snd (seal demo_platform demo_iv ''hello'' demo_key)) demo_key = Inr (''hello'', True)"
  by (rule open_envelope_seal) (simp_all add: demo_platform_correct demo_keys aes_key_length_def)

lemma demo_digest: "sha256 demo_platform ''hello'' = ''14''"
  by (simp add: sha256_def demo_platform_def hex_def hex_digit_def)

lemma demo_decrypt_cached:
  "fst (decryptMessage demo_platform ''alice'' demo_message (cacheKey ''bob'' demo_key demo_tab)) =
     Inr \<lparr>dm_id = 7, dm_sender = ''bob'', dm_receiver = ''alice'', content = ''hello'',
          dm_timestamp = 7, verified = True\<rparr>"
  by (simp add: decryptMessage_eq demo_message_simps findSessionKey_cached demo_open)

lemma demo_get_messages:
  "fst (chatAPI (GetMessages ''alice'' ''bob'') (net demo_tab_chatting)) =
     Inr (MessagesBody [demo_garbled, demo_message])"
  by (simp add: chatAPI_def get_messages_def demo_tab_chatting_def demo_server_def Let_def
      demo_garbled_def demo_message_def)

lemma demo_tab_chatting_simps:
  "aesKeysRef (chat demo_tab_chatting) ''bob'' = Some demo_key"
  "truthy (selectedUser (chat demo_tab_chatting)) = Some ''bob''"
  by (simp_all add: demo_tab_chatting_def initial_chat_def truthy_def)

lemma demo_garbled_simps:
  "otherUser_of ''alice'' demo_garbled = ''bob''"
  "encryptedContent demo_garbled = ''garbled''"
  by (simp_all add: demo_garbled_def otherUser_of_def)

lemma demo_decrypt_garbled:
  "fst (decryptMessage demo_platform ''alice'' demo_garbled demo_tab_chatting) =
     Inl InvalidCharacterError"
  by (simp add: decryptMessage_fst demo_garbled_simps findSessionKey_cached
      demo_tab_chatting_simps open_envelope_no_delimiter)

lemma demo_decrypt_chatting:
  "fst (decryptMessage demo_platform ''alice'' demo_message demo_tab_chatting) =
     Inr \<lparr>dm_id = 7, dm_sender = ''bob'', dm_receiver = ''alice'', content = ''hello'',
          dm_timestamp = 7, verified = True\<rparr>"
  by (simp add: decryptMessage_fst demo_message_simps findSessionKey_cached
      demo_tab_chatting_simps demo_open)



section \<open>Session-key establishment\<close>











section \<open>The message envelope\<close>



text \<open>
  \<^bold>\<open>C7\<close>. When \<^verbatim>\<open>decryptMessage\<close> succeeds on a stored message, the flag it returns is
  the comparison of the SHA-256 of the plaintext with the stored digest; and with any other
  stored digest \<open>d\<close> in place it still succeeds, with the same plaintext, the same state and
  the flag recomputed against \<open>d\<close>: a mismatch is a value, not an error.
\<close>

theorem digest_independent_decrypt:
  assumes "fst (decryptMessage P cu msg w) = Inr dm"
  shows "verified dm = (sha256 P (content dm) = messageHash msg)
       \<and> fst (decryptMessage P cu (msg\<lparr>messageHash := d\<rparr>) w) =
           Inr (dm\<lparr>verified := (sha256 P (content dm) = d)\<rparr>)
       \<and> snd (decryptMessage P cu (msg\<lparr>messageHash := d\<rparr>) w) = snd (decryptMessage P cu msg w)"
  using assms
  by (auto simp: decryptMessage_eq open_envelope_eq split: sum.splits)

theorem digest_independent_decrypt_witness:
  "fst (decryptMessage demo_platform ''alice'' demo_message (cacheKey ''bob'' demo_key demo_tab)) =
     Inr \<lparr>dm_id = 7, dm_sender = ''bob'', dm_receiver = ''alice'', content = ''hello'',
          dm_timestamp = 7, verified = True\<rparr>
   \<and> fst (decryptMessage demo_platform ''alice'' (demo_message\<lparr>messageHash := ''00''\<rparr>)
        (cacheKey ''bob'' demo_key demo_tab)) =
     Inr \<lparr>dm_id = 7, dm_sender = ''bob'', dm_receiver = ''alice'', content = ''hello'',
          dm_timestamp = 7, verified = False\<rparr>"
  using digest_independent_decrypt [OF demo_decrypt_cached, of "''00''"]
  by (simp add: demo_decrypt_cached demo_digest)



text \<open>
  \<^bold>\<open>C9\<close>. The \<^verbatim>\<open>map\<close> of \<^verbatim>\<open>fetchMessages\<close> gives one result per message of the batch,
  in order: the decrypted message where \<^verbatim>\<open>decryptMessage\<close> succeeds on it, and where it throws
  (whatever the error) the marker with content \<^verbatim>\<open>[Decryption failed]\<close> and
  \<open>verified = False\<close>. Each result is what \<^verbatim>\<open>decryptMessage\<close> gives on that message alone in
  the state before the batch, so a failure on one message changes nothing for the others.
  When a user is selected and the server answers, these results become the \<^verbatim>\<open>messages\<close>
  state.
\<close>

theorem batch_decrypt_isolated:
  "fst (decrypt_each P cu msgs w) =
     map (\<lambda>m. case fst (decryptMessage P cu m w) of Inr d \<Rightarrow> d | Inl e \<Rightarrow> decryption_failed m) msgs
   \<and> (truthy (selectedUser (chat w)) = Some su
        \<and> fst (chatAPI (GetMessages cu su) (net w)) = Inr (MessagesBody msgs)
      \<longrightarrow> messages (chat (fetchMessages P cu w)) =
            map (\<lambda>m. case fst (decryptMessage P cu m w) of Inr d \<Rightarrow> d | Inl e \<Rightarrow> decryption_failed m)
              msgs)
   \<and> content (decryption_failed m) = ''[Decryption failed]''
   \<and> verified (decryption_failed m) = False"
  by (simp add: decrypt_each_map fetchMessages_messages decryptMessage_net decryption_failed_def)

theorem batch_decrypt_isolated_witness:
  "fst (decryptMessage demo_platform ''alice'' demo_garbled demo_tab_chatting) =
     Inl InvalidCharacterError
   \<and> messages (chat (fetchMessages demo_platform ''alice'' demo_tab_chatting)) =
       [decryption_failed demo_garbled,
        \<lparr>dm_id = 7, dm_sender = ''bob'', dm_receiver = ''alice'', content = ''hello'',
         dm_timestamp = 7, verified = True\<rparr>]"
  using batch_decrypt_isolated [of demo_platform "''alice''" "[demo_garbled, demo_message]"
      demo_tab_chatting "''bob''" demo_garbled]
  by (simp add: demo_get_messages demo_tab_chatting_simps demo_decrypt_garbled
      demo_decrypt_chatting)

section \<open>Confinement of the private key\<close>

text \<open>
  \<^bold>\<open>C6\<close>. The private key is written to \<^verbatim>\<open>privateKeyRef\<close> by \<^verbatim>\<open>initializeKeys\<close> and read by
  nothing. Stated as an independence: run any two sequences of actions of the chat
  component that differ only in the private keys their \<^verbatim>\<open>initializeKeys\<close> steps generate, from
  two tabs that differ only in the content of \<^verbatim>\<open>privateKeyRef\<close>; then the resulting tabs again
  differ only there. In particular \<^verbatim>\<open>localStorage\<close>, \<^verbatim>\<open>sessionStorage\<close>, the server and every
  request sent are the same: none of them carries anything derived from the private key.
  \<^verbatim>\<open>initializeKeys\<close> itself sends one request, the base64 SPKI export of the public key, and
  writes nothing to storage.
\<close>

theorem private_key_confined:
  assumes "without_private_key w1 = without_private_key w2"
    and "map public_part as1 = map public_part as2"
  shows "without_private_key (perform_all P cu as1 w1) =
           without_private_key (perform_all P cu as2 w2)
       \<and> localStorage (perform_all P cu as1 w1) = localStorage (perform_all P cu as2 w2)
       \<and> sessionStorage (perform_all P cu as1 w1) = sessionStorage (perform_all P cu as2 w2)
       \<and> net (perform_all P cu as1 w1) = net (perform_all P cu as2 w2)
       \<and> requests (net (initializeKeys cu keyPair w)) =
           requests (net w) @ [StorePublicKey cu (btoa (fst keyPair))]
       \<and> localStorage (initializeKeys cu keyPair w) = localStorage w
       \<and> sessionStorage (initializeKeys cu keyPair w) = sessionStorage w"
proof -
  have eq: "without_private_key (perform_all P cu as1 w1) =
      without_private_key (perform_all P cu as2 w2)"
    using assms by (rule perform_all_public)
  have "localStorage (without_private_key (perform_all P cu as1 w1)) =
      localStorage (without_private_key (perform_all P cu as2 w2))"
    "sessionStorage (without_private_key (perform_all P cu as1 w1)) =
      sessionStorage (without_private_key (perform_all P cu as2 w2))"
    "net (without_private_key (perform_all P cu as1 w1)) =
      net (without_private_key (perform_all P cu as2 w2))"
    by (simp_all only: eq)
  then have "localStorage (perform_all P cu as1 w1) = localStorage (perform_all P cu as2 w2)"
    "sessionStorage (perform_all P cu as1 w1) = sessionStorage (perform_all P cu as2 w2)"
    "net (perform_all P cu as1 w1) = net (perform_all P cu as2 w2)"
    by (simp_all add: without_private_key_def)
  moreover have "requests (net (initializeKeys cu keyPair w)) =
      requests (net w) @ [StorePublicKey cu (btoa (fst keyPair))]"
    "localStorage (initializeKeys cu keyPair w) = localStorage w"
    "sessionStorage (initializeKeys cu keyPair w) = sessionStorage w"
    by (simp_all add: initializeKeys_def Let_def generateRSAKeyPair_def chatAPI_def
        split: sum.splits)
  ultimately show ?thesis using eq by simp
qed

theorem private_key_confined_witness:
  "without_private_key
     (perform_all demo_platform ''alice''
        [DoInitializeKeys (''alice-key'', ''private-one''),
         DoGetOrCreateSessionKey ''bob'' demo_key, DoSelectUser ''bob'',
         DoTypeMessage ''hello'', DoHandleSendMessage demo_key2 demo_iv] demo_tab) =
   without_private_key
     (perform_all demo_platform ''alice''
        [DoInitializeKeys (''alice-key'', ''private-two''),
         DoGetOrCreateSessionKey ''bob'' demo_key, DoSelectUser ''bob'',
         DoTypeMessage ''hello'', DoHandleSendMessage demo_key2 demo_iv] demo_tab)
   \<and> localStorage
       (perform_all demo_platform ''alice''
          [DoInitializeKeys (''alice-key'', ''private-one''),
           DoGetOrCreateSessionKey ''bob'' demo_key, DoSelectUser ''bob'',
           DoTypeMessage ''hello'', DoHandleSendMessage demo_key2 demo_iv] demo_tab) =
     localStorage
       (perform_all demo_platform ''alice''
          [DoInitializeKeys (''alice-key'', ''private-two''),
           DoGetOrCreateSessionKey ''bob'' demo_key, DoSelectUser ''bob'',
           DoTypeMessage ''hello'', DoHandleSendMessage demo_key2 demo_iv] demo_tab)
   \<and> sessionStorage
       (perform_all demo_platform ''alice''
          [DoInitializeKeys (''alice-key'', ''private-one''),
           DoGetOrCreateSessionKey ''bob'' demo_key, DoSelectUser ''bob'',
           DoTypeMessage ''hello'', DoHandleSendMessage demo_key2 demo_iv] demo_tab) =
     sessionStorage
       (perform_all demo_platform ''alice''
          [DoInitializeKeys (''alice-key'', ''private-two''),
           DoGetOrCreateSessionKey ''bob'' demo_key, DoSelectUser ''bob'',
           DoTypeMessage ''hello'', DoHandleSendMessage demo_key2 demo_iv] demo_tab)
   \<and> net
       (perform_all demo_platform ''alice''
          [DoInitializeKeys (''alice-key'', ''private-one''),
           DoGetOrCreateSessionKey ''bob'' demo_key, DoSelectUser ''bob'',
           DoTypeMessage ''hello'', DoHandleSendMessage demo_key2 demo_iv] demo_tab) =
     net
       (perform_all demo_platform ''alice''
          [DoInitializeKeys (''alice-key'', ''private-two''),
           DoGetOrCreateSessionKey ''bob'' demo_key, DoSelectUser ''bob'',
           DoTypeMessage ''hello'', DoHandleSendMessage demo_key2 demo_iv] demo_tab)
   \<and> requests (net (initializeKeys ''alice'' (''alice-key'', ''private-one'') demo_tab)) =
       requests (net demo_tab) @ [StorePublicKey ''alice'' (btoa (fst (''alice-key'', ''private-one'')))]
   \<and> localStorage (initializeKeys ''alice'' (''alice-key'', ''private-one'') demo_tab) =
       localStorage demo_tab
   \<and> sessionStorage (initializeKeys ''alice'' (''alice-key'', ''private-one'') demo_tab) =
       sessionStorage demo_tab"
  by (rule private_key_confined) (simp_all add: public_part_def)

section \<open>Session end\<close>




section \<open>The revision that exchanges keys through the server\<close>

text \<open>
  For comparison, the second text of \<^verbatim>\<open>Chat.tsx\<close> (the functions with the suffix \<open>_srv\<close>).
  There the exchange step does publish the directed record, and the peer, in a browser of
  its own, fetches it, unwraps it with its private key and arrives at the same key bytes
  (\<open>convergence_through_server\<close>, for a platform whose RSA decryption inverts the encryption
  for the peer's key pair); a record addressed to the caller is fetched, decrypted, stored
  and cached before any key is generated (\<open>getOrCreateSessionKey_srv_addressed\<close>); an
  envelope that does not have exactly two parts is refused (\<open>open_envelope_srv_malformed\<close>)
  and a sealed one opens (\<open>open_envelope_srv_seal\<close>). As in the first text, a failed exchange
  is swallowed: no error of the HTTP client leaves \<^verbatim>\<open>getOrCreateSessionKey\<close>
  (\<open>getOrCreateSessionKey_srv_no_http_error\<close>).
\<close>

lemma chatAPI_GetSessionKey:
  "chatAPI (GetSessionKey x y) d =
     (if db_ok (srv d) then
        (case SessionKey (srv d) (x, y) of
           Some k \<Rightarrow> Inr (SessionKeyBody x y k)
         | None \<Rightarrow>
             (case SessionKey (srv d) (y, x) of
                Some k \<Rightarrow> Inr (SessionKeyBody y x k)
              | None \<Rightarrow> Inl (AxiosError 404)))
      else Inl (AxiosError 500),
      \<lparr>srv = srv d, requests = requests d @ [GetSessionKey x y]\<rparr>)"
  by (simp add: chatAPI_def get_session_key_def Let_def split: option.splits)

lemma chatAPI_StoreSessionKey:
  "chatAPI (StoreSessionKey x y enc) d =
     (if x = [] \<or> y = [] \<or> enc = [] then Inl (AxiosError 400)
      else if \<not> db_ok (srv d) then Inl (AxiosError 500)
      else if x \<notin> set (User (srv d)) \<or> y \<notin> set (User (srv d)) then Inl (AxiosError 404)
      else Inr Done,
      \<lparr>srv = (if x \<noteq> [] \<and> y \<noteq> [] \<and> enc \<noteq> [] \<and> db_ok (srv d)
                 \<and> x \<in> set (User (srv d)) \<and> y \<in> set (User (srv d))
               then (srv d)\<lparr>SessionKey := (SessionKey (srv d))((x, y) \<mapsto> enc)\<rparr> else srv d),
       requests = requests d @ [StoreSessionKey x y enc]\<rparr>)"
  by (simp add: chatAPI_def post_session_key_def Let_def)

lemma open_envelope_srv_malformed:
  "length (split_on CHR '':'' env) \<noteq> 2 \<Longrightarrow>
   open_envelope_srv P env d k = Inl InvalidEncryptedContentFormat"
  by (auto simp: open_envelope_srv_def split: list.splits)

lemma open_envelope_srv_seal:
  assumes "aes_gcm_correct P" and "utf8_correct P"
    and "aes_key_length (length k)" and "length iv = 12"
  shows "open_envelope_srv P (fst (seal P iv p k)) (snd (seal P iv p k)) k = Inr (p, True)"
proof -
  have "split_on CHR '':'' (fst (seal P iv p k)) =
      [fst (aesEncrypt P iv p k), snd (aesEncrypt P iv p k)]"
    by (simp add: seal_def Let_def aesEncrypt_def split_envelope)
  then show ?thesis
    using aesDecrypt_aesEncrypt [OF assms, of p]
    by (simp add: open_envelope_srv_def Let_def) (simp add: seal_def Let_def)
qed

lemma exchangeSessionKey_srv_publishes:
  assumes "db_ok (srv (net w))"
    and "a \<in> set (User (srv (net w)))" and "b \<in> set (User (srv (net w)))"
    and "a \<noteq> []" and "b \<noteq> []"
    and "PublicKey (srv (net w)) b = Some pk" and "importRSAPublicKey P pk = Inr pubB"
    and "rsa_oaep_encrypt P pubB (utf8_encode P (exportAESKey k)) = Some ct" and "ct \<noteq> []"
  shows "exchangeSessionKey_srv P a b k w =
     w\<lparr>net := \<lparr>srv = (srv (net w))\<lparr>SessionKey := (SessionKey (srv (net w)))((a, b) \<mapsto> btoa ct)\<rparr>,
               requests = requests (net w) @ [GetPublicKey b, StoreSessionKey a b (btoa ct)]\<rparr>\<rparr>"
  using assms
  by (simp add: exchangeSessionKey_srv_def chatAPI_GetPublicKey chatAPI_StoreSessionKey Let_def
      rsaEncrypt_def btoa_nonempty)

lemma getOrCreateSessionKey_srv_result:
  "fst (getOrCreateSessionKey_srv P cu u fresh w) =
     (case aesKeysRef (chat w) u of
        Some k \<Rightarrow> Inr k
      | None \<Rightarrow>
          (case truthy (localStorage w (conversationKeyName cu u)) of
             Some st \<Rightarrow> importAESKey st
           | None \<Rightarrow>
               (case fst (fetchSessionKey_srv P cu u w) of
                  Some k \<Rightarrow> Inr k
                | None \<Rightarrow> Inr fresh)))"
  by (simp add: getOrCreateSessionKey_srv_def Let_def split: option.splits sum.splits)

lemma getOrCreateSessionKey_srv_no_http_error:
  "fst (getOrCreateSessionKey_srv P cu u fresh w) \<noteq> Inl (AxiosError status)"
  using importAESKey_errors
  by (auto simp: getOrCreateSessionKey_srv_result split: option.splits)

lemma getOrCreateSessionKey_srv_addressed:
  assumes "aesKeysRef (chat w) u = None"
    and "truthy (localStorage w (conversationKeyName cu u)) = None"
    and "db_ok (srv (net w))"
    and "SessionKey (srv (net w)) (cu, u) = None"
    and "SessionKey (srv (net w)) (u, cu) = Some enc"
    and "privateKeyRef (chat w) = Some priv"
    and "rsaDecrypt P enc priv = Inr exported"
    and "importAESKey exported = Inr k"
  shows "getOrCreateSessionKey_srv P cu u fresh w =
     (Inr k,
      setItem (conversationKeyName cu u) (exportAESKey k)
        (cacheKey u k
          (w\<lparr>net := \<lparr>srv = srv (net w), requests = requests (net w) @ [GetSessionKey cu u]\<rparr>\<rparr>)))"
  using assms
  by (simp add: getOrCreateSessionKey_srv_def fetchSessionKey_srv_def chatAPI_GetSessionKey
      Let_def)

lemma convergence_through_server:
  assumes "aesKeysRef (chat wA) b = None"
    and "truthy (localStorage wA (conversationKeyName a b)) = None"
    and "SessionKey (srv (net wA)) (a, b) = None" and "SessionKey (srv (net wA)) (b, a) = None"
    and "db_ok (srv (net wA))"
    and "a \<in> set (User (srv (net wA)))" and "b \<in> set (User (srv (net wA)))"
    and "a \<noteq> []" and "b \<noteq> []"
    and "PublicKey (srv (net wA)) b = Some pk" and "importRSAPublicKey P pk = Inr pubB"
    and "rsa_oaep_encrypt P pubB (utf8_encode P (exportAESKey fresh)) = Some ct" and "ct \<noteq> []"
    and "rsa_oaep_decrypt P privB ct = Some (utf8_encode P (exportAESKey fresh))"
    and "utf8_correct P" and "length fresh = 32"
    and "aesKeysRef (chat wB) a = None"
    and "truthy (localStorage wB (conversationKeyName b a)) = None"
    and "privateKeyRef (chat wB) = Some privB"
    and "net wB = net (snd (getOrCreateSessionKey_srv P a b fresh wA))"
  shows "fst (getOrCreateSessionKey_srv P a b fresh wA) = Inr fresh
       \<and> SessionKey (srv (net (snd (getOrCreateSessionKey_srv P a b fresh wA)))) (a, b) = Some (btoa ct)
       \<and> localStorage (snd (getOrCreateSessionKey_srv P a b fresh wA)) (conversationKeyName a b) =
           Some (exportAESKey fresh)
       \<and> aesKeysRef (chat (snd (getOrCreateSessionKey_srv P a b fresh wA))) b = Some fresh
       \<and> fst (getOrCreateSessionKey_srv P b a fresh' wB) = Inr fresh"
proof -
  let ?w1 = "wA\<lparr>net := \<lparr>srv = srv (net wA), requests = requests (net wA) @ [GetSessionKey a b]\<rparr>\<rparr>"
  let ?w2 = "setItem (conversationKeyName a b) (exportAESKey fresh) (cacheKey b fresh ?w1)"
  have fetchA: "fetchSessionKey_srv P a b wA = (None, ?w1)"
    using assms(3,4,5) by (simp add: fetchSessionKey_srv_def chatAPI_GetSessionKey Let_def)
  have rA: "getOrCreateSessionKey_srv P a b fresh wA =
      (Inr fresh, exchangeSessionKey_srv P a b fresh ?w2)"
    using assms(1,2) by (simp add: getOrCreateSessionKey_srv_def fetchA Let_def)
  have ex: "exchangeSessionKey_srv P a b fresh ?w2 =
      ?w2\<lparr>net := \<lparr>srv = (srv (net ?w2))\<lparr>SessionKey := (SessionKey (srv (net ?w2)))((a, b) \<mapsto> btoa ct)\<rparr>,
                 requests = requests (net ?w2) @ [GetPublicKey b, StoreSessionKey a b (btoa ct)]\<rparr>\<rparr>"
    by (rule exchangeSessionKey_srv_publishes [where pk = pk and pubB = pubB])
      (use assms in simp_all)
  have len: "aes_key_length (length fresh)" using assms(16) by (simp add: aes_key_length_def)
  have dec: "rsaDecrypt P (btoa ct) privB = Inr (exportAESKey fresh)"
    using assms(14,15) by (simp add: rsaDecrypt_def atob_btoa utf8_correct_def)
  have netB: "db_ok (srv (net wB))" "SessionKey (srv (net wB)) (a, b) = Some (btoa ct)"
    "SessionKey (srv (net wB)) (b, a) = (if a = b then Some (btoa ct) else None)"
    using assms(4,5) by (auto simp: assms(20) rA ex)
  have fetchB: "fst (fetchSessionKey_srv P b a wB) = Some fresh"
    using netB assms(19) dec len
    by (simp add: fetchSessionKey_srv_def chatAPI_GetSessionKey Let_def importAESKey_export)
  have "fst (getOrCreateSessionKey_srv P b a fresh' wB) = Inr fresh"
    using assms(17,18) fetchB by (simp add: getOrCreateSessionKey_srv_def Let_def)
  then show ?thesis
    by (simp add: rA ex)
qed

lemma convergence_through_server_demo:
  "fst (getOrCreateSessionKey_srv demo_platform ''alice'' ''bob'' demo_key demo_tab) = Inr demo_key
   \<and> SessionKey (srv (net (snd (getOrCreateSessionKey_srv demo_platform ''alice'' ''bob'' demo_key
        demo_tab)))) (''alice'', ''bob'') = Some (btoa (''bob-key'' @ exportAESKey demo_key))
   \<and> localStorage (snd (getOrCreateSessionKey_srv demo_platform ''alice'' ''bob'' demo_key demo_tab))
        (conversationKeyName ''alice'' ''bob'') = Some (exportAESKey demo_key)
   \<and> aesKeysRef (chat (snd (getOrCreateSessionKey_srv demo_platform ''alice'' ''bob'' demo_key
        demo_tab))) ''bob'' = Some demo_key
   \<and> fst (getOrCreateSessionKey_srv demo_platform ''bob'' ''alice'' demo_key2
        (demo_tab\<lparr>chat := initial_chat\<lparr>privateKeyRef := Some ''bob-key''\<rparr>,
                  net := net (snd (getOrCreateSessionKey_srv demo_platform ''alice'' ''bob''
                                     demo_key demo_tab))\<rparr>)) = Inr demo_key"
proof (rule convergence_through_server [where pk = "btoa ''bob-key''" and pubB = "''bob-key''"
      and privB = "''bob-key''"])
  show "importRSAPublicKey demo_platform (btoa ''bob-key'') = Inr ''bob-key''"
    by (simp add: importRSAPublicKey_def atob_btoa demo_platform_def)
  show "rsa_oaep_encrypt demo_platform ''bob-key'' (utf8_encode demo_platform (exportAESKey demo_key)) =
      Some (''bob-key'' @ exportAESKey demo_key)"
    by (simp add: demo_platform_def exportAESKey_def length_btoa demo_key_def)
  show "rsa_oaep_decrypt demo_platform ''bob-key'' (''bob-key'' @ exportAESKey demo_key) =
      Some (utf8_encode demo_platform (exportAESKey demo_key))"
    by (simp add: demo_platform_def)
qed (simp_all add: demo_tab_simps demo_platform_correct demo_keys truthy_def demo_server_def
    initial_chat_def)

end
